theory Spec2Isabelle
  imports Complex_Main "HOL-Library.Signed_Division"
begin

section \<open>DeepSkies (DSWIN.C): the star data file, the projection and the paint loop\<close>

text \<open>
  The development embeds the parts of \<^verbatim>\<open>DSWIN.C\<close> that read \<^verbatim>\<open>STARS.DAT\<close>,
  project a star to the screen and draw it: the integrity check and the star loop of
  \<^verbatim>\<open>DSWndProc\<close> (message \<^verbatim>\<open>WM_PAINT\<close>), \<^verbatim>\<open>EQConvert\<close>, \<^verbatim>\<open>NormalizeZeroTwoPI\<close>,
  \<^verbatim>\<open>rtrim\<close> and \<^verbatim>\<open>GetStar\<close>.

  Numbers. A C \<^verbatim>\<open>long\<close> (file offsets, star indices) is an \<^typ>\<open>int\<close>; no offset of a
  file that exists leaves the 32-bit range. C division and remainder truncate towards
  zero: they are \<open>sdiv\<close> and \<open>smod\<close>. A C \<^verbatim>\<open>double\<close> is a \<^typ>\<open>real\<close>. The symbol size
  and \<^verbatim>\<open>EQConvert\<close> are embedded with exact arithmetic and the real functions named as
  those of \<^verbatim>\<open>math.h\<close>: this gives the formulas of the program. What the program
  computes is rounded at every step, and where a test or a loop depends on the
  rounding the code is embedded with rounded arithmetic: \<^verbatim>\<open>NormalizeZeroTwoPI\<close>, and
  \<^verbatim>\<open>EQConvert\<close> a second time (\<open>EQConvert_fl\<close>). At the view that \<^verbatim>\<open>WM_CREATE\<close> sets,
  the only one the program draws, the two embeddings of \<^verbatim>\<open>EQConvert\<close> give the same
  pixel for the centre of the view.
\<close>

subsection \<open>Global constants\<close>

definition PI :: real where "PI = 3.141592653590"
definition TWOPI :: real where "TWOPI = 6.283185307180"
definition PI2 :: real where "PI2 = 1.570796326795"
definition RADS :: real where "RADS = 0.017453292520"
definition streclen :: int where "streclen = 61"

subsection \<open>Errors\<close>

text \<open>
  Every way the embedded code can leave its normal path is a value: the two message
  boxes of the paint handler, a domain error of \<^verbatim>\<open>asin\<close>, a division by zero and a
  conversion of a \<^verbatim>\<open>double\<close> to \<^verbatim>\<open>int\<close> whose value does not fit (undefined in C).
\<close>

datatype error =
  OpenFailed
  | DataFileError
  | MathDomain
  | ZeroDivide
  | IntConversion

subsection \<open>The integrity check of the data file\<close>

text \<open>
  The data file is the list of its bytes. \<^verbatim>\<open>fseek(fp_stars, 0L, SEEK_END)\<close> followed by
  \<^verbatim>\<open>ftell\<close> gives its length \<^verbatim>\<open>floc\<close>; the file is refused when \<^verbatim>\<open>floc % streclen != 0\<close>,
  otherwise \<^verbatim>\<open>DsC.Stars = floc / streclen - 5\<close>.
\<close>

type_synonym store = string

definition ftell_end :: "store \<Rightarrow> int" where
  "ftell_end fp = int (length fp)"

definition check_datafile :: "store \<Rightarrow> error + int" where
  "check_datafile fp =
     (let floc = ftell_end fp
      in if floc smod streclen \<noteq> 0 then Inl DataFileError
         else Inr (floc sdiv streclen - 5))"

subsection \<open>The symbol size\<close>

text \<open>
  Lines 293 to 305 of \<^verbatim>\<open>DSWndProc\<close>: the size from the limiting magnitude \<^verbatim>\<open>DsC.Mag\<close>
  and the star's magnitude, then the two clamps, in the source's order.
\<close>

definition star_size :: "real \<Rightarrow> real \<Rightarrow> real" where
  "star_size DsC_Mag Star_Mag =
     (let sz = (if DsC_Mag \<le> 15.0 then DsC_Mag - Star_Mag + 0.50
                else 15 - Star_Mag + 0.50);
          sz = (if sz < 1.0 then 1.0 else sz);
          sz = (if sz > 8.0 then 8.0 else sz)
      in sz)"

subsection \<open>The control structure and the projection\<close>

text \<open>
  \<^verbatim>\<open>DSCONTROL\<close>, with the fields the embedded code reads or writes (the four
  \<^verbatim>\<open>Min\<close>/\<^verbatim>\<open>Max\<close> bounds and \<^verbatim>\<open>CRA\<close>, \<^verbatim>\<open>CDec\<close> are never used by the program).
  An \<^verbatim>\<open>int\<close> of this 16-bit program lies between \<open>INT_MIN\<close> and \<open>INT_MAX\<close>.
\<close>

record DSCONTROL =
  dRA :: real
  dDec :: real
  dFOV :: real
  dMag :: real
  dROT :: real
  MaxX :: int
  MaxY :: int
  CX :: int
  CY :: int
  Stars :: int

definition INT_MIN :: int where "INT_MIN = - 32768"
definition INT_MAX :: int where "INT_MAX = 32767"

text \<open>
  The cast \<^verbatim>\<open>(int)x\<close> of a \<^verbatim>\<open>double\<close> drops the fraction (it truncates towards zero);
  C leaves it undefined when the result does not fit an \<^verbatim>\<open>int\<close>.
\<close>

definition trunc :: "real \<Rightarrow> int" where
  "trunc x = (if 0 \<le> x then \<lfloor>x\<rfloor> else \<lceil>x\<rceil>)"

definition c_int :: "real \<Rightarrow> error + int" where
  "c_int x = (if INT_MIN \<le> trunc x \<and> trunc x \<le> INT_MAX then Inr (trunc x)
              else Inl IntConversion)"

text \<open>
  The library functions. \<^verbatim>\<open>asin\<close> has the domain from \<open>-1\<close> to \<open>1\<close> and reports a
  domain error outside it. \<^verbatim>\<open>atan2(y, x)\<close> is the angle of the point \<open>(x, y)\<close>, between
  \<open>- pi\<close> and \<open>pi\<close>; at the origin, where there is no angle, C allows a domain error,
  and the library of this program reports one. \<^verbatim>\<open>sin\<close>, \<^verbatim>\<open>cos\<close> and \<^verbatim>\<open>tan\<close> are
  \<^const>\<open>sin\<close>, \<^const>\<open>cos\<close> and \<^const>\<open>tan\<close> (no \<^verbatim>\<open>double\<close> is a pole of the tangent, where
  \<^const>\<open>tan\<close> is \<open>0\<close>; no property below depends on the value there).
\<close>

definition c_asin :: "real \<Rightarrow> error + real" where
  "c_asin x = (if - 1 \<le> x \<and> x \<le> 1 then Inr (arcsin x) else Inl MathDomain)"

definition atan2 :: "real \<Rightarrow> real \<Rightarrow> real" where
  "atan2 y x =
     (if 0 < x then arctan (y / x)
      else if x < 0 then (if 0 \<le> y then arctan (y / x) + pi else arctan (y / x) - pi)
      else if 0 < y then pi / 2
      else if y < 0 then - (pi / 2)
      else 0)"

definition c_atan2 :: "real \<Rightarrow> real \<Rightarrow> error + real" where
  "c_atan2 y x = (if y = 0 \<and> x = 0 then Inl MathDomain else Inr (atan2 y x))"

text \<open>
  \<^verbatim>\<open>EQConvert\<close>, block by block. The azimuth (\<^verbatim>\<open>p1\<close>, \<^verbatim>\<open>p2\<close>, \<^verbatim>\<open>Az\<close>), with the test
  that keeps the origin away from \<^verbatim>\<open>atan2\<close>:
\<close>

definition eq_p1 :: "DSCONTROL \<Rightarrow> real \<Rightarrow> real \<Rightarrow> real" where
  "eq_p1 DsC RA Dec = sin (dRA DsC * RADS - RA * RADS)"

definition eq_p2 :: "DSCONTROL \<Rightarrow> real \<Rightarrow> real \<Rightarrow> real" where
  "eq_p2 DsC RA Dec =
     cos (dRA DsC * RADS - RA * RADS) * sin (dDec DsC * RADS)
       - tan (Dec * RADS) * cos (dDec DsC * RADS)"

definition eq_Az :: "DSCONTROL \<Rightarrow> real \<Rightarrow> real \<Rightarrow> error + real" where
  "eq_Az DsC RA Dec =
     (let p1 = eq_p1 DsC RA Dec; p2 = eq_p2 DsC RA Dec
      in if p1 = 0.0 \<and> p2 = 0.0 then Inr 0.0 else c_atan2 p1 p2)"

text \<open>
  The altitude (\<^verbatim>\<open>TempVal\<close>, \<^verbatim>\<open>Alt\<close>), with the test before \<^verbatim>\<open>asin\<close>. \<open>eq_TempVal\<close> is
  the exact value of the expression of line 412; the value that the program computes
  there, each product and the sum rounded, is \<open>fl_TempVal\<close> below.
\<close>

definition eq_TempVal :: "DSCONTROL \<Rightarrow> real \<Rightarrow> real \<Rightarrow> real" where
  "eq_TempVal DsC RA Dec =
     sin (dDec DsC * RADS) * sin (Dec * RADS)
       + cos (dDec DsC * RADS) * cos (Dec * RADS) * cos (dRA DsC * RADS - RA * RADS)"

definition eq_Alt :: "DSCONTROL \<Rightarrow> real \<Rightarrow> real \<Rightarrow> error + real" where
  "eq_Alt DsC RA Dec =
     (let TempVal = eq_TempVal DsC RA Dec
      in if TempVal \<ge> 1.0 then Inr PI2 else c_asin TempVal)"

text \<open>
  The plane coordinates (\<^verbatim>\<open>nz\<close>, \<^verbatim>\<open>az2\<close>, \<^verbatim>\<open>tX\<close>, \<^verbatim>\<open>tY\<close>) from the azimuth and the
  altitude, and the scale \<^verbatim>\<open>xyScale\<close>. The three divide by \<^verbatim>\<open>fFOV\<close> or \<^verbatim>\<open>DsC.FOV\<close>;
  \<^verbatim>\<open>EQConvert\<close> below returns the division error before it uses them with a zero
  divisor.
\<close>

definition eq_tX :: "DSCONTROL \<Rightarrow> real \<Rightarrow> real \<Rightarrow> real" where
  "eq_tX DsC Az Alt =
     (let fFOV = dFOV DsC * RADS; fROT = dROT DsC * RADS;
          nz = 1.0 - 2.0 * Alt / PI;
          az2 = Az - PI2 + fROT
      in (nz * cos az2) * PI / fFOV)"

definition eq_tY :: "DSCONTROL \<Rightarrow> real \<Rightarrow> real \<Rightarrow> real" where
  "eq_tY DsC Az Alt =
     (let fFOV = dFOV DsC * RADS; fROT = dROT DsC * RADS;
          nz = 1.0 - 2.0 * Alt / PI;
          az2 = Az - PI2 + fROT
      in - (nz * sin az2) * PI / fFOV)"

definition eq_xyScale :: "DSCONTROL \<Rightarrow> real" where
  "eq_xyScale DsC = (real_of_int (MaxX DsC) / (dFOV DsC * RADS)) / (120.0 / dFOV DsC)"

text \<open>
  The whole function: the results go to \<^verbatim>\<open>DsC.CX\<close> and \<^verbatim>\<open>DsC.CY\<close>, so the function
  returns the updated control structure.
\<close>

definition EQConvert :: "DSCONTROL \<Rightarrow> real \<Rightarrow> real \<Rightarrow> error + DSCONTROL" where
  "EQConvert DsC RA Dec =
     (case eq_Az DsC RA Dec of
        Inl e \<Rightarrow> Inl e
      | Inr Az \<Rightarrow>
         (case eq_Alt DsC RA Dec of
            Inl e \<Rightarrow> Inl e
          | Inr Alt \<Rightarrow>
              if dFOV DsC * RADS = 0 \<or> dFOV DsC = 0 then Inl ZeroDivide
              else
                let tX = eq_tX DsC Az Alt; tY = eq_tY DsC Az Alt;
                    xyScale = eq_xyScale DsC
                in case c_int ((real_of_int (MaxX DsC) / 2.0) + (tX * xyScale)) of
                     Inl e \<Rightarrow> Inl e
                   | Inr x \<Rightarrow>
                      (case c_int ((real_of_int (MaxY DsC) / 2.0) + (tY * xyScale)) of
                         Inl e \<Rightarrow> Inl e
                       | Inr y \<Rightarrow> Inr (DsC\<lparr>CX := x, CY := y\<rparr>))))"

subsection \<open>View states used in the examples\<close>

text \<open>
  The view of \<^verbatim>\<open>WM_CREATE\<close> (centre 300, 40, field of view 60, limiting magnitude 6.5,
  no rotation) on a client area of 3 by 3 pixels and on one of 640 by 480 pixels.
\<close>

definition ds_odd :: DSCONTROL where
  "ds_odd = \<lparr>dRA = 300, dDec = 40, dFOV = 60, dMag = 6.5, dROT = 0,
             MaxX = 3, MaxY = 3, CX = 0, CY = 0, Stars = 0\<rparr>"

definition ds_vga :: DSCONTROL where
  "ds_vga = \<lparr>dRA = 300, dDec = 40, dFOV = 60, dMag = 6.5, dROT = 0,
             MaxX = 640, MaxY = 480, CX = 0, CY = 0, Stars = 0\<rparr>"

subsection \<open>The stream on the data file\<close>

text \<open>
  \<^verbatim>\<open>STARS.DAT\<close> is opened with \<^verbatim>\<open>fopen("STARS.DAT", "r")\<close>: a text stream of the C
  library of MS-DOS and Windows. Read in text mode, a carriage return before a line
  feed is dropped and the byte Ctrl-Z (\<open>0x1A\<close>) ends the input: the stream reports the
  end of the file there. \<^verbatim>\<open>fseek\<close> and \<^verbatim>\<open>ftell\<close> count the bytes of the file itself.
\<close>

abbreviation NUL :: char where "NUL \<equiv> CHR 0x00"
abbreviation LF :: char where "LF \<equiv> CHR 0x0A"
abbreviation CR :: char where "CR \<equiv> CHR 0x0D"
abbreviation CTRLZ :: char where "CTRLZ \<equiv> CHR 0x1A"

fun text_mode :: "string \<Rightarrow> string" where
  "text_mode [] = []"
| "text_mode [c] = (if c = CTRLZ then [] else [c])"
| "text_mode (c # d # cs) =
     (if c = CTRLZ then []
      else if c = CR \<and> d = LF then text_mode (d # cs)
      else c # text_mode (d # cs))"

text \<open>
  \<^verbatim>\<open>fseek(fp, pos, SEEK_SET)\<close> returns 0 unless the offset is negative. \<^verbatim>\<open>fgets(SL, n, fp)\<close>
  reads at most \<open>n - 1\<close> characters, stops after a line feed, and returns \<^verbatim>\<open>NULL\<close>
  (here \<open>None\<close>) when the input ends before the first character. Every read of the
  program follows an \<^verbatim>\<open>fseek\<close>, so \<open>fgets\<close> takes the position.
\<close>

definition fseek :: "store \<Rightarrow> int \<Rightarrow> int" where
  "fseek fp pos = (if 0 \<le> pos then 0 else - 1)"

fun fgets_line :: "nat \<Rightarrow> string \<Rightarrow> string" where
  "fgets_line 0 s = []"
| "fgets_line (Suc n) [] = []"
| "fgets_line (Suc n) (c # cs) = (if c = LF then [c] else c # fgets_line n cs)"

definition fgets :: "nat \<Rightarrow> store \<Rightarrow> int \<Rightarrow> string option" where
  "fgets n fp pos =
     (let s = text_mode (drop (nat pos) fp)
      in if s = [] then None else Some (fgets_line (n - 1) s))"

subsection \<open>Character arrays and \<^verbatim>\<open>atof\<close>\<close>

text \<open>
  \<^verbatim>\<open>SL\<close> is a local array of 80 characters that \<^verbatim>\<open>GetStar\<close> does not initialise: \<open>SL0\<close> is
  what it holds on entry. \<^verbatim>\<open>fgets\<close> writes the line and a terminating \<open>NUL\<close> at its
  start and leaves the rest. The C string in an array ends before the first \<open>NUL\<close>.
\<close>

definition store_line :: "string \<Rightarrow> string \<Rightarrow> string" where
  "store_line SL0 line = line @ NUL # drop (Suc (length line)) SL0"

definition cstr :: "string \<Rightarrow> string" where
  "cstr buf = takeWhile (\<lambda>c. c \<noteq> NUL) buf"

text \<open>
  \<^verbatim>\<open>strncpy(S, SL + off, n); S[m] = '\0';\<close> leaves in \<^verbatim>\<open>S\<close> the string \<open>field SL off n m\<close>:
  \<^verbatim>\<open>strncpy\<close> copies \<open>n\<close> characters, or up to a \<open>NUL\<close> and then fills with \<open>NUL\<close>.
\<close>

definition field :: "string \<Rightarrow> nat \<Rightarrow> nat \<Rightarrow> nat \<Rightarrow> string" where
  "field SL off n m = take m (cstr (take n (drop off SL)))"

text \<open>
  \<^verbatim>\<open>atof\<close> skips white space, then reads an optional sign, decimal digits with an
  optional point and an optional exponent (\<^verbatim>\<open>e\<close> or \<^verbatim>\<open>E\<close>, an optional sign, digits);
  it stops at the first character that does not fit and returns 0 when there is no
  digit. The value is exact here.
\<close>

definition isspace :: "char \<Rightarrow> bool" where
  "isspace c \<longleftrightarrow> c = CHR '' '' \<or> c = CHR 0x09 \<or> c = CHR 0x0A \<or> c = CHR 0x0B
                 \<or> c = CHR 0x0C \<or> c = CHR 0x0D"

definition digit :: "char \<Rightarrow> nat option" where
  "digit c =
     (let n = (of_char c :: nat)
      in if of_char (CHR ''0'') \<le> n \<and> n \<le> of_char (CHR ''9'')
         then Some (n - of_char (CHR ''0'')) else None)"

text \<open>\<open>digits v k s\<close>: the value and the number of the leading digits of \<open>s\<close>, and the rest.\<close>

fun digits :: "nat \<Rightarrow> nat \<Rightarrow> string \<Rightarrow> nat \<times> nat \<times> string" where
  "digits v k [] = (v, k, [])"
| "digits v k (c # cs) =
     (case digit c of
        Some d \<Rightarrow> digits (10 * v + d) (Suc k) cs
      | None \<Rightarrow> (v, k, c # cs))"

definition sign_of :: "string \<Rightarrow> bool \<times> string" where
  "sign_of s =
     (case s of
        [] \<Rightarrow> (False, [])
      | c # cs \<Rightarrow> if c = CHR ''-'' then (True, cs)
                  else if c = CHR ''+'' then (False, cs)
                  else (False, s))"

definition exponent :: "string \<Rightarrow> int" where
  "exponent s =
     (case s of
        [] \<Rightarrow> 0
      | c # cs \<Rightarrow>
          if c = CHR ''e'' \<or> c = CHR ''E'' then
            (let (neg, s1) = sign_of cs; (v, k, s2) = digits 0 0 s1
             in if k = 0 then 0 else if neg then - int v else int v)
          else 0)"

definition atof :: "string \<Rightarrow> real" where
  "atof s =
     (let (neg, s1) = sign_of (dropWhile isspace s);
          (iv, ik, s2) = digits 0 0 s1;
          (fv, fk, s3) = (case s2 of
                            [] \<Rightarrow> (0, 0, [])
                          | c # cs \<Rightarrow> if c = CHR ''.'' then digits 0 0 cs else (0, 0, s2));
          m = real iv + real fv / 10 ^ fk;
          e = exponent s3;
          x = (if 0 \<le> e then m * 10 ^ nat e else m / 10 ^ nat (- e))
      in if ik + fk = 0 then 0 else if neg then - x else x)"

subsection \<open>\<^verbatim>\<open>rtrim\<close>\<close>

text \<open>
  The loop of \<^verbatim>\<open>rtrim\<close> on the array \<open>target\<close>, from \<open>i = strlen(target) - 1\<close> down while
  \<open>i > 0\<close>: a space becomes \<open>NUL\<close>, anything else sets \<open>i = 0\<close>, which ends the loop.
\<close>

fun rtrim_loop :: "string \<Rightarrow> nat \<Rightarrow> string" where
  "rtrim_loop target 0 = target"
| "rtrim_loop target (Suc i) =
     (if target ! Suc i = CHR '' '' then rtrim_loop (target[Suc i := NUL]) i
      else target)"

definition rtrim :: "string \<Rightarrow> string" where
  "rtrim target = rtrim_loop target (length (cstr target) - 1)"

subsection \<open>\<^verbatim>\<open>GetStar\<close>\<close>

record STARDATA =
  Label :: string
  sRA :: real
  sDec :: real
  sMag :: real
  Class :: string
  PMRA :: real
  PMDec :: real

text \<open>
  \<^verbatim>\<open>GetStar\<close> writes the global \<^verbatim>\<open>Star\<close>: it takes the old value and returns the new one.
  When \<^verbatim>\<open>fseek\<close> or \<^verbatim>\<open>fgets\<close> fails it sets its local \<^verbatim>\<open>error\<close> to 1, and the block
  \<^verbatim>\<open>if (error == 1)\<close> is empty but for a comment: \<^verbatim>\<open>Star\<close> keeps its value.
  (\<^verbatim>\<open>sprintf(Star.Class, "%s", S)\<close> also writes a terminator behind the two characters
  of \<^verbatim>\<open>Class\<close>; what lies there is not part of this model.)
\<close>

definition GetStar :: "store \<Rightarrow> string \<Rightarrow> STARDATA \<Rightarrow> int \<Rightarrow> STARDATA" where
  "GetStar fp SL0 Star index =
     (let fspot = (index + 4) * streclen
      in if fseek fp fspot = 0 then
           (case fgets (nat streclen) fp fspot of
              Some line \<Rightarrow>
                (let SL = store_line SL0 line
                 in Star\<lparr>Label := field SL 0 17 16,
                         sRA := atof (field SL 17 11 11),
                         sDec := atof (field SL 28 12 12),
                         sMag := atof (field SL 40 5 5),
                         Class := field SL 45 3 2,
                         PMRA := atof (field SL 47 9 9),
                         PMDec := atof (field SL 56 9 9)\<rparr>)
            | None \<Rightarrow> Star)
         else Star)"

subsection \<open>The star loop of \<^verbatim>\<open>DSWndProc\<close>\<close>

text \<open>
  What the paint handler draws is the list of its calls of \<^verbatim>\<open>SetPixel\<close>, \<^verbatim>\<open>Ellipse\<close>
  and \<^verbatim>\<open>TextOut\<close>, with their coordinates (and the text), in the order of the calls.
  The calls of \<^verbatim>\<open>SetBkMode\<close> draw nothing and are not recorded.
\<close>

datatype gdi =
  SetPixel int int
  | Ellipse int int int int
  | TextOut int int string

text \<open>
  The body of the loop after \<^verbatim>\<open>GetStar(i)\<close>, lines 289 to 320: the test against the
  limiting magnitude, the projection, the symbol, and the label of a star more than
  three magnitudes brighter than the limit. \<^verbatim>\<open>sz\<close> lies between 1 and 8, so \<^verbatim>\<open>(int)sz\<close>
  is \<open>trunc sz\<close>. The sums and differences of coordinates are those of the integers:
  where they leave the range of an \<^verbatim>\<open>int\<close>, C leaves the result undefined.
\<close>

definition draw_star :: "DSCONTROL \<Rightarrow> STARDATA \<Rightarrow> error + DSCONTROL \<times> gdi list" where
  "draw_star DsC Star =
     (if sMag Star \<le> dMag DsC then
        (case EQConvert DsC (sRA Star) (sDec Star) of
           Inl e \<Rightarrow> Inl e
         | Inr DsC' \<Rightarrow>
             (let sz = star_size (dMag DsC') (sMag Star);
                  symbol =
                    (if sz = 1.0 then SetPixel (CX DsC') (CY DsC')
                     else Ellipse (CX DsC' - trunc sz) (CY DsC' - trunc sz)
                            (CX DsC' + trunc sz) (CY DsC' + trunc sz));
                  label =
                    (if sMag Star < dMag DsC' - 3.0
                     then [TextOut (CX DsC' + trunc sz) (CY DsC' - trunc sz)
                             (cstr (Label Star))]
                     else [])
              in Inr (DsC', symbol # label)))
      else Inr (DsC, []))"

text \<open>
  The loop \<^verbatim>\<open>for(i = 1; i <= DsC.Stars; i++)\<close>. Each call of \<^verbatim>\<open>GetStar\<close> has its own
  uninitialised \<^verbatim>\<open>SL\<close>: \<open>SL0 i\<close> is its content in the call for index \<open>i\<close>. The loop
  ends because the projection leaves \<^verbatim>\<open>DsC.Stars\<close> as it is.
\<close>

lemma EQConvert_Stars: "EQConvert DsC RA Dec = Inr DsC' \<Longrightarrow> Stars DsC' = Stars DsC"
  by (auto simp: EQConvert_def Let_def split: sum.splits if_splits)

lemma draw_star_Stars: "draw_star DsC Star = Inr (DsC', drawn) \<Longrightarrow> Stars DsC' = Stars DsC"
  by (auto simp: draw_star_def Let_def split: sum.splits if_splits dest: EQConvert_Stars)

function star_loop ::
  "store \<Rightarrow> (int \<Rightarrow> string) \<Rightarrow> int \<Rightarrow> DSCONTROL \<Rightarrow> STARDATA \<Rightarrow> gdi list
     \<Rightarrow> error + DSCONTROL \<times> STARDATA \<times> gdi list" where
  "star_loop fp SL0 i DsC Star out =
     (if i \<le> Stars DsC then
        (let Star' = GetStar fp (SL0 i) Star i
         in case draw_star DsC Star' of
              Inl e \<Rightarrow> Inl e
            | Inr (DsC', drawn) \<Rightarrow> star_loop fp SL0 (i + 1) DsC' Star' (out @ drawn))
      else Inr (DsC, Star, out))"
  by pat_completeness auto
termination
  by (relation "measure (\<lambda>(fp, SL0, i, DsC, Star, out). nat (Stars DsC + 1 - i))")
    (auto dest: draw_star_Stars)

declare star_loop.simps [simp del]

text \<open>
  The block \<^verbatim>\<open>PROCESS STARS.DAT FILE\<close> of \<^verbatim>\<open>WM_PAINT\<close>, lines 272 to 325; \<open>None\<close> is a
  file that \<^verbatim>\<open>fopen\<close> cannot open.
\<close>

definition paint_stars ::
  "store option \<Rightarrow> (int \<Rightarrow> string) \<Rightarrow> DSCONTROL \<Rightarrow> STARDATA
     \<Rightarrow> error + DSCONTROL \<times> STARDATA \<times> gdi list" where
  "paint_stars file SL0 DsC Star =
     (case file of
        None \<Rightarrow> Inl OpenFailed
      | Some fp \<Rightarrow>
          (case check_datafile fp of
             Inl e \<Rightarrow> Inl e
           | Inr n \<Rightarrow> star_loop fp SL0 1 (DsC\<lparr>Stars := n\<rparr>) Star []))"

subsection \<open>Data files used in the examples\<close>

text \<open>
  Five header records and two star records of 61 bytes each. The fields of a star
  record follow the comments of \<^verbatim>\<open>GetStar\<close>: label 17, right ascension 11, declination
  12, magnitude 5, class 2 and proper motion in right ascension 9 characters; the
  five bytes left in the record begin the proper motion in declination. The first
  star lies at the centre of the view of \<^verbatim>\<open>WM_CREATE\<close>. In the second file the record
  of the second star begins with Ctrl-Z.
\<close>

definition headers :: string where
  "headers = replicate (5 * 61) (CHR ''#'')"

definition polaris :: string where
  "polaris = ''Polaris          '' @ ''  300.00000'' @ ''   40.000000'' @ '' 2.00''
             @ ''F7'' @ ''    44.22'' @ ''-11.7''"

definition vega :: string where
  "vega = ''Vega (Alpha Lyr.)'' @ ''  279.23473'' @ ''   38.783689'' @ '' 9.00''
          @ ''A0'' @ ''   200.94'' @ ''286.2''"

definition two_stars :: store where
  "two_stars = headers @ polaris @ vega"

definition cut_short :: store where
  "cut_short = headers @ polaris @ CTRLZ # replicate 60 (CHR ''x'')"

text \<open>
  The global \<^verbatim>\<open>Star\<close> before the first read (a C global starts as zeros), the two
  stars as \<^verbatim>\<open>GetStar\<close> reads them, and an \<^verbatim>\<open>SL\<close> of 80 question marks.
\<close>

definition Star_zero :: STARDATA where
  "Star_zero = \<lparr>Label = [], sRA = 0, sDec = 0, sMag = 0, Class = [], PMRA = 0, PMDec = 0\<rparr>"

definition Star_polaris :: STARDATA where
  "Star_polaris = \<lparr>Label = ''Polaris         '', sRA = 300, sDec = 40, sMag = 2,
                    Class = ''F7'', PMRA = 44.22, PMDec = - 11\<rparr>"

definition Star_vega :: STARDATA where
  "Star_vega = \<lparr>Label = ''Vega (Alpha Lyr.'', sRA = 279.23473, sDec = 38.783689, sMag = 9,
                 Class = ''A0'', PMRA = 200.94, PMDec = 286\<rparr>"

definition SL_junk :: "int \<Rightarrow> string" where
  "SL_junk i = replicate 80 (CHR ''?'')"

subsection \<open>Trimming, in the words of the specification\<close>

text \<open>
  The specification's trimming of a label, to compare \<open>rtrim\<close> with: the space
  characters at the right end are stripped, up to the first character, scanning from
  right to left, that is not a space.
\<close>

definition spec_trim :: "string \<Rightarrow> string" where
  "spec_trim s = rev (dropWhile (\<lambda>c. c = CHR '' '') (rev s))"

subsection \<open>What a frame draws\<close>

text \<open>The calls recorded by the paint handler; none when it ends with an error.\<close>

definition directives :: "error + DSCONTROL \<times> STARDATA \<times> gdi list \<Rightarrow> gdi list" where
  "directives r = (case r of Inl e \<Rightarrow> [] | Inr (DsC, Star, out) \<Rightarrow> out)"

subsection \<open>\<^verbatim>\<open>NormalizeZeroTwoPI\<close>, in rounded arithmetic\<close>

text \<open>
  The two loops of \<^verbatim>\<open>NormalizeZeroTwoPI\<close> end only if subtracting or adding \<^verbatim>\<open>TWOPI\<close>
  changes \<^verbatim>\<open>tmpVal\<close>, and that depends on how the result is rounded. A finite
  \<^verbatim>\<open>double\<close> is a real number with a significand of 53 bits, and the difference or sum
  of two of them is the exact result rounded to the nearest such number, to the one
  with the even significand when two are equally near: \<open>rne\<close> rounds to the nearest
  integer in this way, and \<open>round53 x\<close> rounds \<open>x\<close> at 53 bits, where
  \<open>\<lfloor>log 2 \<bar>x\<bar>\<rfloor>\<close> is the binary exponent of \<open>x\<close>. (The range of the exponent of a
  \<^verbatim>\<open>double\<close> is left out: the values below are far from its ends.) The variable
  \<^verbatim>\<open>TWOPI\<close> holds the \<^verbatim>\<open>double\<close> nearest to its decimal initialiser.
\<close>

definition rne :: "real \<Rightarrow> int" where
  "rne x =
     (let f = \<lfloor>x\<rfloor>; d = x - of_int f
      in if d < 1 / 2 then f
         else if 1 / 2 < d then f + 1
         else if even f then f else f + 1)"

definition round53 :: "real \<Rightarrow> real" where
  "round53 x =
     (if x = 0 then 0
      else let e = \<lfloor>log 2 \<bar>x\<bar>\<rfloor> - 52
           in of_int (rne (x / 2 powi e)) * 2 powi e)"

text \<open>
  Either loop may run forever: each is a partial function, \<open>None\<close> where it does not
  return, and \<^verbatim>\<open>NormalizeZeroTwoPI\<close> runs the first and then the second.
\<close>

partial_function (option) sub_loop :: "real \<Rightarrow> real option" where
  "sub_loop tmpVal =
     (if tmpVal \<ge> round53 TWOPI then sub_loop (round53 (tmpVal - round53 TWOPI))
      else Some tmpVal)"

partial_function (option) add_loop :: "real \<Rightarrow> real option" where
  "add_loop tmpVal =
     (if tmpVal < 0.0 then add_loop (round53 (tmpVal + round53 TWOPI))
      else Some tmpVal)"

definition NormalizeZeroTwoPI :: "real \<Rightarrow> real option" where
  "NormalizeZeroTwoPI v = Option.bind (sub_loop v) add_loop"

subsection \<open>\<^verbatim>\<open>EQConvert\<close>, in rounded arithmetic\<close>

text \<open>
  The test \<^verbatim>\<open>TempVal >= 1.0\<close> of \<^verbatim>\<open>EQConvert\<close> is there for what rounding does to
  \<^verbatim>\<open>TempVal\<close>, and which way it goes depends on how the products and the sum of line
  412 are rounded. To follow the function at such an input it is embedded a second
  time, as the machine computes it: every product, quotient, sum and difference of
  \<^verbatim>\<open>double\<close>s is the exact result rounded at 53 bits (with no wider format in between),
  and \<^verbatim>\<open>PI\<close>, \<^verbatim>\<open>PI2\<close> and \<^verbatim>\<open>RADS\<close> hold the \<^verbatim>\<open>double\<close>s nearest to their initialisers.
  The other constants of the function (\<open>0.0\<close>, \<open>1.0\<close>, \<open>2.0\<close>, \<open>120.0\<close>) are \<^verbatim>\<open>double\<close>s,
  and so is an \<^verbatim>\<open>int\<close> converted to \<^verbatim>\<open>double\<close>. As before the range of the exponent is
  left out, and with it the infinities, the NaNs and the sign of zero.
\<close>

definition fadd :: "real \<Rightarrow> real \<Rightarrow> real" where
  "fadd x y = round53 (x + y)"

definition fsub :: "real \<Rightarrow> real \<Rightarrow> real" where
  "fsub x y = round53 (x - y)"

definition fmul :: "real \<Rightarrow> real \<Rightarrow> real" where
  "fmul x y = round53 (x * y)"

definition fdiv :: "real \<Rightarrow> real \<Rightarrow> real" where
  "fdiv x y = round53 (x / y)"

text \<open>
  The functions of \<^verbatim>\<open>math.h\<close> belong to the C library, not to the program: they are
  a parameter \<open>M\<close> of the embedding, five functions from \<^verbatim>\<open>double\<close>s to \<^verbatim>\<open>double\<close>s.
  \<^verbatim>\<open>asin\<close> reports a domain error outside the interval from \<open>-1\<close> to \<open>1\<close> and \<^verbatim>\<open>atan2\<close>
  at the origin, as in the exact embedding.
\<close>

record libm =
  lsin :: "real \<Rightarrow> real"
  lcos :: "real \<Rightarrow> real"
  ltan :: "real \<Rightarrow> real"
  lasin :: "real \<Rightarrow> real"
  latan2 :: "real \<Rightarrow> real \<Rightarrow> real"

definition fl_asin :: "libm \<Rightarrow> real \<Rightarrow> error + real" where
  "fl_asin M x = (if - 1 \<le> x \<and> x \<le> 1 then Inr (lasin M x) else Inl MathDomain)"

definition fl_atan2 :: "libm \<Rightarrow> real \<Rightarrow> real \<Rightarrow> error + real" where
  "fl_atan2 M y x = (if y = 0 \<and> x = 0 then Inl MathDomain else Inr (latan2 M y x))"

text \<open>
  Lines 388 to 393 convert degrees to radians (\<open>fl_rad\<close>); \<open>fl_h\<close> is the difference
  \<^verbatim>\<open>fRA - RA\<close> of lines 396, 397 and 412. Then the blocks of the function, in the
  order of the exact embedding.
\<close>

definition fl_rad :: "real \<Rightarrow> real" where
  "fl_rad x = fmul x (round53 RADS)"

definition fl_h :: "DSCONTROL \<Rightarrow> real \<Rightarrow> real" where
  "fl_h DsC RA = fsub (fl_rad (dRA DsC)) (fl_rad RA)"

definition fl_p1 :: "libm \<Rightarrow> DSCONTROL \<Rightarrow> real \<Rightarrow> real \<Rightarrow> real" where
  "fl_p1 M DsC RA Dec = lsin M (fl_h DsC RA)"

definition fl_p2 :: "libm \<Rightarrow> DSCONTROL \<Rightarrow> real \<Rightarrow> real \<Rightarrow> real" where
  "fl_p2 M DsC RA Dec =
     fsub (fmul (lcos M (fl_h DsC RA)) (lsin M (fl_rad (dDec DsC))))
          (fmul (ltan M (fl_rad Dec)) (lcos M (fl_rad (dDec DsC))))"

definition fl_Az :: "libm \<Rightarrow> DSCONTROL \<Rightarrow> real \<Rightarrow> real \<Rightarrow> error + real" where
  "fl_Az M DsC RA Dec =
     (let p1 = fl_p1 M DsC RA Dec; p2 = fl_p2 M DsC RA Dec
      in if p1 = 0 \<and> p2 = 0 then Inr 0 else fl_atan2 M p1 p2)"

definition fl_TempVal :: "libm \<Rightarrow> DSCONTROL \<Rightarrow> real \<Rightarrow> real \<Rightarrow> real" where
  "fl_TempVal M DsC RA Dec =
     fadd (fmul (lsin M (fl_rad (dDec DsC))) (lsin M (fl_rad Dec)))
          (fmul (fmul (lcos M (fl_rad (dDec DsC))) (lcos M (fl_rad Dec)))
                (lcos M (fl_h DsC RA)))"

definition fl_Alt :: "libm \<Rightarrow> DSCONTROL \<Rightarrow> real \<Rightarrow> real \<Rightarrow> error + real" where
  "fl_Alt M DsC RA Dec =
     (let TempVal = fl_TempVal M DsC RA Dec
      in if TempVal \<ge> 1 then Inr (round53 PI2) else fl_asin M TempVal)"

definition fl_nz :: "real \<Rightarrow> real" where
  "fl_nz Alt = fsub 1 (fdiv (fmul 2 Alt) (round53 PI))"

definition fl_az2 :: "DSCONTROL \<Rightarrow> real \<Rightarrow> real" where
  "fl_az2 DsC Az = fadd (fsub Az (round53 PI2)) (fl_rad (dROT DsC))"

definition fl_tX :: "libm \<Rightarrow> DSCONTROL \<Rightarrow> real \<Rightarrow> real \<Rightarrow> real" where
  "fl_tX M DsC Az Alt =
     fdiv (fmul (fmul (fl_nz Alt) (lcos M (fl_az2 DsC Az))) (round53 PI))
          (fl_rad (dFOV DsC))"

definition fl_tY :: "libm \<Rightarrow> DSCONTROL \<Rightarrow> real \<Rightarrow> real \<Rightarrow> real" where
  "fl_tY M DsC Az Alt =
     fdiv (fmul (- fmul (fl_nz Alt) (lsin M (fl_az2 DsC Az))) (round53 PI))
          (fl_rad (dFOV DsC))"

definition fl_xyScale :: "DSCONTROL \<Rightarrow> real" where
  "fl_xyScale DsC =
     fdiv (fdiv (real_of_int (MaxX DsC)) (fl_rad (dFOV DsC))) (fdiv 120 (dFOV DsC))"

definition EQConvert_fl :: "libm \<Rightarrow> DSCONTROL \<Rightarrow> real \<Rightarrow> real \<Rightarrow> error + DSCONTROL" where
  "EQConvert_fl M DsC RA Dec =
     (case fl_Az M DsC RA Dec of
        Inl e \<Rightarrow> Inl e
      | Inr Az \<Rightarrow>
         (case fl_Alt M DsC RA Dec of
            Inl e \<Rightarrow> Inl e
          | Inr Alt \<Rightarrow>
              if fl_rad (dFOV DsC) = 0 \<or> dFOV DsC = 0 then Inl ZeroDivide
              else
                let tX = fl_tX M DsC Az Alt; tY = fl_tY M DsC Az Alt;
                    xyScale = fl_xyScale DsC
                in case c_int (fadd (fdiv (real_of_int (MaxX DsC)) 2) (fmul tX xyScale)) of
                     Inl e \<Rightarrow> Inl e
                   | Inr x \<Rightarrow>
                      (case c_int (fadd (fdiv (real_of_int (MaxY DsC)) 2) (fmul tY xyScale)) of
                         Inl e \<Rightarrow> Inl e
                       | Inr y \<Rightarrow> Inr (DsC\<lparr>CX := x, CY := y\<rparr>))))"

text \<open>
  Two views on a client area of 640 by 480 pixels: one centred at right ascension 0,
  declination \<open>-41\<close>, with the field of view the \<^verbatim>\<open>double\<close> nearest to 0.0001 degrees,
  and one centred at right ascension 0, declination \<open>-38\<close>, with the field of view of
  \<^verbatim>\<open>WM_CREATE\<close>.
\<close>

definition ds_zoom :: DSCONTROL where
  "ds_zoom = \<lparr>dRA = 0, dDec = - 41, dFOV = round53 (1 / 10000), dMag = 6.5, dROT = 0,
              MaxX = 640, MaxY = 480, CX = 0, CY = 0, Stars = 0\<rparr>"

definition ds_south :: DSCONTROL where
  "ds_south = \<lparr>dRA = 0, dDec = - 38, dFOV = 60, dMag = 6.5, dROT = 0,
               MaxX = 640, MaxY = 480, CX = 0, CY = 0, Stars = 0\<rparr>"

text \<open>
  A library for the runs at these two views and at the view of \<^verbatim>\<open>WM_CREATE\<close>. At the
  arguments that the runs pass to it, it returns the values listed, each the
  \<^verbatim>\<open>double\<close> nearest to the value of the real function; elsewhere it returns the value
  of the real function, rounded. In decimal the values listed are, for the sine, the
  cosine and the tangent of \<open>fl_rad 40\<close>, of \<open>fl_rad (- 41)\<close> and of \<open>fl_rad 38\<close>:

    \<^item> \<open>0.6427876096882769\<close> and \<open>0.7660444431175201\<close>;
    \<^item> \<open>-0.6560590289922619\<close>, \<open>0.7547095802212467\<close> and \<open>-0.8692867378203084\<close>;
    \<^item> \<open>0.6156614753273563\<close> and \<open>0.7880107536053954\<close>;

  \<open>-1\<close> for the cosine of \<open>- fl_rad 180\<close> (\<open>-3.1415926536\<close>); \<open>-1\<close> and
  \<open>-1.0341155355510722e-13\<close> for the sine and the cosine of \<open>- PI2\<close>; and
  \<open>1.5707963057214724\<close> for the arc sine of \<open>1 - 1 / 2 ^ 52\<close>.
\<close>

definition lib_nearest :: libm where
  "lib_nearest =
     \<lparr>lsin = (\<lambda>x. if x = fl_rad 40 then 5789716078940991 / 2 ^ 53
                  else if x = fl_rad (- 41) then - (369328399812825 / 2 ^ 49)
                  else if x = fl_rad (- 38) then - (5545385581741303 / 2 ^ 53)
                  else if x = fl_rad 38 then 5545385581741303 / 2 ^ 53
                  else if x = - round53 PI2 then - 1
                  else round53 (sin x)),
      lcos = (\<lambda>x. if x = fl_rad 40 then 6899914937146605 / 2 ^ 53
                  else if x = fl_rad (- 41) then 1699454892128675 / 2 ^ 51
                  else if x = fl_rad (- 38) \<or> x = fl_rad 38 then 7097769872602405 / 2 ^ 53
                  else if x = - fl_rad 180 then - 1
                  else if x = - round53 PI2 then - (8193107370916585 / 2 ^ 96)
                  else round53 (cos x)),
      ltan = (\<lambda>x. if x = fl_rad (- 41) then - (3914919428525655 / 2 ^ 52)
                  else round53 (tan x)),
      lasin = (\<lambda>x. if x = 1 - 1 / 2 ^ 52 then 7074237657122175 / 2 ^ 52
                   else round53 (arcsin x)),
      latan2 = (\<lambda>y x. round53 (atan2 y x))\<rparr>"

section \<open>Properties\<close>

subsection \<open>Integrity check\<close>

lemma smod_61_nat: "int n smod 61 = int (n mod 61)"
  by (simp add: signed_modulo_int_def sgn_if zmod_int)

lemma sdiv_61_nat: "int n sdiv 61 = int (n div 61)"
  by (simp add: signed_divide_int_def sgn_if zdiv_int)

lemma check_datafile_eq:
  "check_datafile fp =
     (if length fp mod 61 \<noteq> 0 then Inl DataFileError
      else Inr (int (length fp div 61) - 5))"
  by (simp add: check_datafile_def ftell_end_def streclen_def smod_61_nat sdiv_61_nat)

text \<open>
  C1. The check fails, with the data file error, exactly when the length of the file is
  not a multiple of the record length 61; otherwise it gives \<open>length / 61 - 5\<close> as the
  number of stars. A file of \<open>61 * 7\<close> bytes has 2 stars and a file of \<open>61 * 7 + 1\<close>
  bytes is refused.
\<close>

theorem C1_check_datafile:
  "check_datafile fp =
     (if 61 dvd length fp then Inr (int (length fp) div 61 - 5) else Inl DataFileError)
   \<and> ((\<exists>e. check_datafile fp = Inl e) \<longleftrightarrow> \<not> 61 dvd length fp)
   \<and> (length fp = 61 * 7 \<longrightarrow> check_datafile fp = Inr 2)
   \<and> (length fp = 61 * 7 + 1 \<longrightarrow> check_datafile fp = Inl DataFileError)"
  by (auto simp: check_datafile_eq dvd_eq_mod_eq_0 zdiv_int)

theorem C1_check_datafile_witness:
  "check_datafile (replicate (61 * 7) (CHR ''x'')) = Inr 2
   \<and> check_datafile (replicate (61 * 7 + 1) (CHR ''x'')) = Inl DataFileError
   \<and> \<not> 61 dvd length (replicate (61 * 7 + 1) (CHR ''x''))"
  using C1_check_datafile [of "replicate (61 * 7) (CHR ''x'')"]
    C1_check_datafile [of "replicate (61 * 7 + 1) (CHR ''x'')"]
  by simp

subsection \<open>Symbol size\<close>

text \<open>
  C6. The symbol size is \<open>limitingMagnitude - magnitude + 0.5\<close> when the limiting
  magnitude is at most 15 and \<open>15 - magnitude + 0.5\<close> otherwise, clamped into the
  interval from 1 to 8, whatever the two magnitudes are.
\<close>

theorem C6_star_size:
  "star_size limiting m =
     min 8 (max 1 (if limiting \<le> 15 then limiting - m + 1 / 2 else 15 - m + 1 / 2))
   \<and> 1 \<le> star_size limiting m \<and> star_size limiting m \<le> 8"
  by (simp add: star_size_def Let_def min_def max_def)

subsection \<open>The exact projection at the centre of the view\<close>

text \<open>
  In exact arithmetic \<^verbatim>\<open>TempVal\<close> is 1 at the centre of every view, the altitude is
  \<^verbatim>\<open>PI2\<close> and the pixel is the centre of the display.
\<close>

lemma eq_Az_Inr:
  "eq_Az DsC RA Dec =
     Inr (if eq_p1 DsC RA Dec = 0 \<and> eq_p2 DsC RA Dec = 0 then 0
          else atan2 (eq_p1 DsC RA Dec) (eq_p2 DsC RA Dec))"
  by (simp add: eq_Az_def c_atan2_def Let_def)

lemma TempVal_center: "eq_TempVal DsC (dRA DsC) (dDec DsC) = 1"
  by (simp add: eq_TempVal_def power2_eq_square[symmetric])

lemma Az_center:
  assumes "cos (dDec DsC * RADS) \<noteq> 0"
  shows "eq_Az DsC (dRA DsC) (dDec DsC) = Inr 0"
  using assms by (simp add: eq_Az_def eq_p1_def eq_p2_def tan_def Let_def)

lemma Alt_center: "eq_Alt DsC (dRA DsC) (dDec DsC) = Inr PI2"
  by (simp add: eq_Alt_def TempVal_center)

lemma tX_center: "eq_tX DsC Az PI2 = 0"
  by (simp add: eq_tX_def Let_def PI2_def PI_def)

lemma tY_center: "eq_tY DsC Az PI2 = 0"
  by (simp add: eq_tY_def Let_def PI2_def PI_def)

lemma trunc_half: "0 \<le> n \<Longrightarrow> trunc (real_of_int n / 2) = n div 2"
proof -
  assume "0 \<le> n"
  have "\<lfloor>real_of_int n / real_of_int 2\<rfloor> = n div 2" by (rule floor_divide_of_int_eq)
  with \<open>0 \<le> n\<close> show ?thesis by (simp add: trunc_def)
qed

lemma EQConvert_center:
  assumes "dFOV DsC \<noteq> 0"
    and "0 \<le> MaxX DsC" "MaxX DsC \<le> INT_MAX" "0 \<le> MaxY DsC" "MaxY DsC \<le> INT_MAX"
  shows "EQConvert DsC (dRA DsC) (dDec DsC)
           = Inr (DsC\<lparr>CX := MaxX DsC div 2, CY := MaxY DsC div 2\<rparr>)"
proof -
  have r: "- 32768 \<le> n div 2 \<and> n div 2 \<le> 32767" if "0 \<le> n" "n \<le> INT_MAX" for n :: int
    using that unfolding INT_MAX_def by arith
  have c: "c_int (real_of_int n / 2) = Inr (n div 2)" if "0 \<le> n" "n \<le> INT_MAX" for n :: int
    using that r [OF that] by (simp add: c_int_def trunc_half INT_MIN_def INT_MAX_def)
  note x = c [OF assms(2,3)] and y = c [OF assms(4,5)]
  show ?thesis
    using assms(1)
    by (simp add: EQConvert_def eq_Az_Inr Alt_center tX_center tY_center Let_def RADS_def x y)
qed

subsection \<open>The exact value of \<^verbatim>\<open>TempVal\<close>\<close>

text \<open>
  In exact arithmetic \<^verbatim>\<open>TempVal\<close> lies between \<open>-1\<close> and 1, whatever the view and the
  star are: it is rounding alone that takes the \<^verbatim>\<open>TempVal\<close> of the program out of the
  domain of \<^verbatim>\<open>asin\<close>.
\<close>

lemma sin_cos_combination_bound:
  fixes a b c :: real
  assumes "- 1 \<le> c" "c \<le> 1"
  shows "\<bar>sin a * sin b + cos a * cos b * c\<bar> \<le> 1"
proof -
  define u where "u = (1 + c) / 2"
  have c: "c = 2 * u - 1" by (simp add: u_def field_simps)
  have u: "0 \<le> u" "u \<le> 1" using assms by (simp_all add: u_def)
  define x where "x = cos (a - b)"
  define y where "y = cos (a + b)"
  have e: "sin a * sin b + cos a * cos b * c = u * x - (y - u * y)"
    unfolding c x_def y_def by (simp add: cos_add cos_diff algebra_simps)
  have x: "- 1 \<le> x" "x \<le> 1" and y: "- 1 \<le> y" "y \<le> 1"
    by (simp_all add: x_def y_def)
  have "u * x \<le> u * 1" "u * (- 1) \<le> u * x"
    using u x by (intro mult_left_mono; simp)+
  moreover have "(1 - u) * y \<le> (1 - u) * 1" "(1 - u) * (- 1) \<le> (1 - u) * y"
    using u y by (intro mult_left_mono; simp)+
  ultimately have "u * x \<le> u" "- u \<le> u * x" "y - u * y \<le> 1 - u" "u - 1 \<le> y - u * y"
    by (simp_all add: algebra_simps)
  then show ?thesis unfolding e by linarith
qed

lemma TempVal_bounds: "\<bar>eq_TempVal DsC RA Dec\<bar> \<le> 1"
  unfolding eq_TempVal_def by (rule sin_cos_combination_bound) simp_all

subsection \<open>The pixel position\<close>

text \<open>
  C9, as the code has it. For every input of the projection with a field of view
  other than zero, whose two results fit an \<^verbatim>\<open>int\<close>, the pixel position is obtained by
  dropping the fraction (truncation towards zero, not rounding):
  \<open>CX = trunc (MaxX / 2 + tX * xyScale)\<close> and \<open>CY = trunc (MaxY / 2 + tY * xyScale)\<close>,
  where \<open>xyScale = (MaxX / (FOV * RADS)) / (120 / FOV)\<close>.
\<close>

theorem C9_pixel_truncation:
  assumes "dFOV DsC \<noteq> 0"
    and "eq_Az DsC RA Dec = Inr Az" and "eq_Alt DsC RA Dec = Inr Alt"
    and "X = real_of_int (MaxX DsC) / 2 + eq_tX DsC Az Alt * eq_xyScale DsC"
    and "Y = real_of_int (MaxY DsC) / 2 + eq_tY DsC Az Alt * eq_xyScale DsC"
    and "INT_MIN \<le> trunc X" "trunc X \<le> INT_MAX" "INT_MIN \<le> trunc Y" "trunc Y \<le> INT_MAX"
  shows "EQConvert DsC RA Dec = Inr (DsC\<lparr>CX := trunc X, CY := trunc Y\<rparr>)
         \<and> eq_xyScale DsC = (real_of_int (MaxX DsC) / (dFOV DsC * RADS)) / (120 / dFOV DsC)"
  using assms by (simp add: EQConvert_def Let_def c_int_def RADS_def eq_xyScale_def)

theorem C9_pixel_truncation_witness:
  "EQConvert ds_odd 300 40 = Inr (ds_odd\<lparr>CX := trunc (3 / 2), CY := trunc (3 / 2)\<rparr>)
   \<and> trunc (3 / 2) = 1"
proof -
  have a: "eq_Alt ds_odd 300 40 = Inr PI2"
    using Alt_center [of ds_odd] by (simp add: ds_odd_def)
  have t: "trunc (3 / 2) = 1" by (simp add: trunc_def)
  have "EQConvert ds_odd 300 40 = Inr (ds_odd\<lparr>CX := trunc (3 / 2), CY := trunc (3 / 2)\<rparr>)
         \<and> eq_xyScale ds_odd
             = (real_of_int (MaxX ds_odd) / (dFOV ds_odd * RADS)) / (120 / dFOV ds_odd)"
    by (rule C9_pixel_truncation [where Alt = PI2, OF _ eq_Az_Inr])
      (simp_all add: a tX_center tY_center t INT_MIN_def INT_MAX_def, simp_all add: ds_odd_def)
  with t show ?thesis by simp
qed

text \<open>
  With rounding in place of truncation the statement fails on a client area of 3 by 3
  pixels, at the centre of the view: the code gives the pixel \<open>(1, 1)\<close>, rounding
  \<open>3 / 2\<close> gives \<open>(2, 2)\<close>.
\<close>

theorem C9_round_counterexample:
  "EQConvert ds_odd 300 40 = Inr (ds_odd\<lparr>CX := 1, CY := 1\<rparr>)
   \<and> eq_Az ds_odd 300 40 = Inr 0 \<and> eq_Alt ds_odd 300 40 = Inr PI2
   \<and> round (real_of_int (MaxX ds_odd) / 2 + eq_tX ds_odd 0 PI2 * eq_xyScale ds_odd) = 2
   \<and> round (real_of_int (MaxY ds_odd) / 2 + eq_tY ds_odd 0 PI2 * eq_xyScale ds_odd) = 2"
proof -
  have "EQConvert ds_odd (dRA ds_odd) (dDec ds_odd)
          = Inr (ds_odd\<lparr>CX := MaxX ds_odd div 2, CY := MaxY ds_odd div 2\<rparr>)"
    by (rule EQConvert_center) (simp_all add: ds_odd_def INT_MAX_def)
  moreover have "eq_Alt ds_odd (dRA ds_odd) (dDec ds_odd) = Inr PI2"
    by (rule Alt_center)
  moreover have "eq_Az ds_odd (dRA ds_odd) (dDec ds_odd) = Inr 0"
  proof (rule Az_center)
    have "0 < cos (40 * RADS)"
      using pi_ge_two by (intro cos_gt_zero) (simp_all add: RADS_def)
    then show "cos (dDec ds_odd * RADS) \<noteq> 0"
      by (simp add: ds_odd_def)
  qed
  moreover have "round (3 / 2 :: real) = 2"
    by (simp add: round_def)
  ultimately show ?thesis
    by (simp add: ds_odd_def tX_center tY_center)
qed

subsection \<open>Reading a record\<close>

lemma text_mode_plain_append:
  "\<forall>c\<in>set a. c \<noteq> CTRLZ \<and> c \<noteq> CR \<Longrightarrow> text_mode (a @ rest) = a @ text_mode rest"
proof (induction a)
  case Nil
  then show ?case by simp
next
  case (Cons c a)
  then have c: "c \<noteq> CTRLZ" "c \<noteq> CR" and IH: "text_mode (a @ rest) = a @ text_mode rest"
    by simp_all
  show ?case
  proof (cases "a @ rest")
    case Nil
    with c show ?thesis by simp
  next
    case (Cons d cs)
    with c IH show ?thesis by simp
  qed
qed

lemma text_mode_CTRLZ: "text_mode (CTRLZ # s) = []"
  by (cases s) simp_all

lemma fgets_line_append:
  "LF \<notin> set a \<Longrightarrow> length a \<le> n \<Longrightarrow> fgets_line n (a @ s) = a @ fgets_line (n - length a) s"
proof (induction a arbitrary: n)
  case Nil
  then show ?case by simp
next
  case (Cons c a)
  then obtain k where n: "n = Suc k" by (cases n) auto
  with Cons show ?case by auto
qed

lemma length_fgets_line: "length (fgets_line n s) \<le> n"
  by (induction n s rule: fgets_line.induct) simp_all

lemma fgets_record:
  assumes "0 \<le> pos" and "drop (nat pos) fp = r @ rest" and "r \<noteq> []"
    and "\<forall>c\<in>set r. c \<noteq> CTRLZ \<and> c \<noteq> CR \<and> c \<noteq> LF" and "length r \<le> n - 1"
  shows "fgets n fp pos = Some (r @ fgets_line (n - 1 - length r) (text_mode rest))"
proof -
  have "text_mode (r @ rest) = r @ text_mode rest"
    using assms(4) by (intro text_mode_plain_append) simp
  moreover have "fgets_line (n - 1) (r @ text_mode rest)
                   = r @ fgets_line (n - 1 - length r) (text_mode rest)"
    using assms(4,5) by (intro fgets_line_append) auto
  ultimately show ?thesis
    using assms(2,3) by (simp add: fgets_def)
qed

lemma cstr_no_NUL: "NUL \<notin> set s \<Longrightarrow> cstr s = s"
  by (auto simp: cstr_def)

lemma cstr_append_NUL: "NUL \<notin> set d \<Longrightarrow> cstr (d @ NUL # z) = d"
  by (induction d) (auto simp: cstr_def)

lemma field_prefix:
  assumes "NUL \<notin> set r" and "off + n \<le> length r"
  shows "field (store_line SL0 (r @ tail)) off n m = take m (take n (drop off r))"
proof -
  have "take n (drop off (store_line SL0 (r @ tail))) = take n (drop off r)"
    using assms(2) by (simp add: store_line_def)
  moreover have "NUL \<notin> set (take n (drop off r))"
    using assms(1) by (meson in_set_dropD in_set_takeD)
  ultimately show ?thesis
    by (simp add: field_def cstr_no_NUL)
qed

lemma field_last:
  assumes "NUL \<notin> set line" and "length line = 60"
  shows "field (store_line SL0 line) 56 9 9 = drop 56 line"
proof -
  have "take 9 (drop 56 (store_line SL0 line))
          = drop 56 line @ NUL # take 4 (drop 61 SL0)"
    using assms(2) by (simp add: store_line_def)
  moreover have "NUL \<notin> set (drop 56 line)"
    using assms(1) by (meson in_set_dropD)
  ultimately show ?thesis
    using assms(2) by (simp add: field_def cstr_append_NUL)
qed

lemma GetStar_failed:
  "fseek fp ((index + 4) * streclen) \<noteq> 0
     \<or> fgets (nat streclen) fp ((index + 4) * streclen) = None
   \<Longrightarrow> GetStar fp SL0 Star index = Star"
  by (auto simp: GetStar_def Let_def)

lemma GetStar_line:
  assumes "0 \<le> index + 4"
    and "fgets 61 fp ((index + 4) * 61) = Some (r @ tail)"
    and "NUL \<notin> set r" and "length r = 56"
  shows "GetStar fp SL0 Star index =
           Star\<lparr>Label := take 16 r,
                 sRA := atof (take 11 (drop 17 r)),
                 sDec := atof (take 12 (drop 28 r)),
                 sMag := atof (take 5 (drop 40 r)),
                 Class := take 2 (drop 45 r),
                 PMRA := atof (take 9 (drop 47 r)),
                 PMDec := atof (field (store_line SL0 (r @ tail)) 56 9 9)\<rparr>"
  using assms
  by (simp add: GetStar_def fseek_def streclen_def Let_def field_prefix)

lemma GetStar_record:
  assumes "0 \<le> index + 4"
    and "drop (nat ((index + 4) * 61)) fp = line @ rest" and "length line = 60"
    and "\<forall>c\<in>set line. c \<noteq> NUL \<and> c \<noteq> CTRLZ \<and> c \<noteq> CR \<and> c \<noteq> LF"
  shows "GetStar fp SL0 Star index =
           Star\<lparr>Label := take 16 line,
                 sRA := atof (take 11 (drop 17 line)),
                 sDec := atof (take 12 (drop 28 line)),
                 sMag := atof (take 5 (drop 40 line)),
                 Class := take 2 (drop 45 line),
                 PMRA := atof (take 9 (drop 47 line)),
                 PMDec := atof (drop 56 line)\<rparr>"
proof -
  have n: "NUL \<notin> set line" using assms(4) by auto
  have "fgets 61 fp ((index + 4) * 61)
          = Some (line @ fgets_line (61 - 1 - length line) (text_mode rest))"
  proof (rule fgets_record)
    show "0 \<le> (index + 4) * 61" using assms(1) by simp
    show "drop (nat ((index + 4) * 61)) fp = line @ rest" by (fact assms(2))
    show "line \<noteq> []" using assms(3) by auto
    show "\<forall>c\<in>set line. c \<noteq> CTRLZ \<and> c \<noteq> CR \<and> c \<noteq> LF" using assms(4) by blast
    show "length line \<le> 61 - 1" using assms(3) by simp
  qed
  then have f: "fgets 61 fp ((index + 4) * 61) = Some (take 56 line @ drop 56 line)"
    using assms(3) by simp
  have "GetStar fp SL0 Star index =
           Star\<lparr>Label := take 16 (take 56 line),
                 sRA := atof (take 11 (drop 17 (take 56 line))),
                 sDec := atof (take 12 (drop 28 (take 56 line))),
                 sMag := atof (take 5 (drop 40 (take 56 line))),
                 Class := take 2 (drop 45 (take 56 line)),
                 PMRA := atof (take 9 (drop 47 (take 56 line))),
                 PMDec := atof (field (store_line SL0 (take 56 line @ drop 56 line)) 56 9 9)\<rparr>"
    using assms(1) f
  proof (rule GetStar_line)
    show "NUL \<notin> set (take 56 line)" using n by (meson in_set_takeD)
    show "length (take 56 line) = 56" using assms(3) by simp
  qed
  then show ?thesis
    using assms(3) n by (simp add: field_last drop_take)
qed

lemma GetStar_prefix:
  assumes "0 \<le> index + 4" and "off = nat ((index + 4) * streclen)"
    and "off + 56 \<le> length fp" and "r = take 56 (drop off fp)"
    and "\<forall>c\<in>set r. c \<noteq> NUL \<and> c \<noteq> CTRLZ \<and> c \<noteq> CR \<and> c \<noteq> LF"
  shows "\<exists>tail. fgets (nat streclen) fp ((index + 4) * streclen) = Some (r @ tail)
           \<and> length (r @ tail) \<le> 60
           \<and> GetStar fp SL0 Star index =
               Star\<lparr>Label := take 16 r,
                     sRA := atof (take 11 (drop 17 r)),
                     sDec := atof (take 12 (drop 28 r)),
                     sMag := atof (take 5 (drop 40 r)),
                     Class := take 2 (drop 45 r),
                     PMRA := atof (take 9 (drop 47 r)),
                     PMDec := atof (field (store_line SL0 (r @ tail)) 56 9 9)\<rparr>"
proof -
  define tail where "tail = fgets_line (61 - 1 - length r) (text_mode (drop (off + 56) fp))"
  have l: "length r = 56"
    using assms(3,4) by simp
  have o: "nat ((index + 4) * 61) = off"
    using assms(2) by (simp add: streclen_def)
  have f: "fgets 61 fp ((index + 4) * 61) = Some (r @ tail)"
    unfolding tail_def
  proof (rule fgets_record)
    show "0 \<le> (index + 4) * 61" using assms(1) by simp
    show "drop (nat ((index + 4) * 61)) fp = r @ drop (off + 56) fp"
      unfolding o assms(4) by (metis append_take_drop_id drop_drop add.commute)
    show "r \<noteq> []" using l by auto
    show "\<forall>c\<in>set r. c \<noteq> CTRLZ \<and> c \<noteq> CR \<and> c \<noteq> LF" using assms(5) by blast
    show "length r \<le> 61 - 1" using l by simp
  qed
  have "length tail \<le> 4"
    unfolding tail_def l using length_fgets_line [of 4] by simp
  then have t: "length (r @ tail) \<le> 60"
    using l by simp
  have n: "NUL \<notin> set r" using assms(5) by blast
  have g: "GetStar fp SL0 Star index =
               Star\<lparr>Label := take 16 r,
                     sRA := atof (take 11 (drop 17 r)),
                     sDec := atof (take 12 (drop 28 r)),
                     sMag := atof (take 5 (drop 40 r)),
                     Class := take 2 (drop 45 r),
                     PMRA := atof (take 9 (drop 47 r)),
                     PMDec := atof (field (store_line SL0 (r @ tail)) 56 9 9)\<rparr>"
    by (rule GetStar_line [OF assms(1) f n l])
  from f have "fgets (nat streclen) fp ((index + 4) * streclen) = Some (r @ tail)"
    by (simp add: streclen_def)
  with t g show ?thesis by blast
qed

subsection \<open>The records of the example files\<close>

lemma atof_300: "atof ''  300.00000'' = 300"
  by (simp add: atof_def sign_of_def isspace_def digit_def exponent_def)

lemma atof_40: "atof ''   40.000000'' = 40"
  by (simp add: atof_def sign_of_def isspace_def digit_def exponent_def)

lemma atof_2: "atof '' 2.00'' = 2"
  by (simp add: atof_def sign_of_def isspace_def digit_def exponent_def)

lemma atof_44: "atof ''    44.22'' = 44.22"
  by (simp add: atof_def sign_of_def isspace_def digit_def exponent_def)

lemma atof_11: "atof ''-11.'' = - 11"
  by (simp add: atof_def sign_of_def isspace_def digit_def exponent_def)

lemma atof_279: "atof ''  279.23473'' = 279.23473"
  by (simp add: atof_def sign_of_def isspace_def digit_def exponent_def)

lemma atof_38: "atof ''   38.783689'' = 38.783689"
  by (simp add: atof_def sign_of_def isspace_def digit_def exponent_def)

lemma atof_9: "atof '' 9.00'' = 9"
  by (simp add: atof_def sign_of_def isspace_def digit_def exponent_def)

lemma atof_200: "atof ''   200.94'' = 200.94"
  by (simp add: atof_def sign_of_def isspace_def digit_def exponent_def)

lemma atof_286: "atof ''286.'' = 286"
  by (simp add: atof_def sign_of_def isspace_def digit_def exponent_def)

lemma atof_2862: "atof ''286.2'' = 286.2"
  by (simp add: atof_def sign_of_def isspace_def digit_def exponent_def)

lemma length_polaris: "length polaris = 61"
  by (simp add: polaris_def)

lemma take_56_polaris:
  "take 56 (drop 305 two_stars)
     = ''Polaris          '' @ ''  300.00000'' @ ''   40.000000'' @ '' 2.00'' @ ''F7''
       @ ''    44.22''"
  by (simp add: two_stars_def headers_def polaris_def)

lemma GetStar_polaris:
  assumes "fp = headers @ polaris @ rest"
  shows "GetStar fp SL0 Star 1 = Star_polaris"
proof -
  have "GetStar fp SL0 Star 1 =
           Star\<lparr>Label := take 16 (take 60 polaris),
                 sRA := atof (take 11 (drop 17 (take 60 polaris))),
                 sDec := atof (take 12 (drop 28 (take 60 polaris))),
                 sMag := atof (take 5 (drop 40 (take 60 polaris))),
                 Class := take 2 (drop 45 (take 60 polaris)),
                 PMRA := atof (take 9 (drop 47 (take 60 polaris))),
                 PMDec := atof (drop 56 (take 60 polaris))\<rparr>"
  proof (rule GetStar_record)
    show "drop (nat ((1 + 4) * 61)) fp = take 60 polaris @ (drop 60 polaris @ rest)"
      by (simp add: assms headers_def)
    show "length (take 60 polaris) = 60" by (simp add: polaris_def)
    show "\<forall>c\<in>set (take 60 polaris). c \<noteq> NUL \<and> c \<noteq> CTRLZ \<and> c \<noteq> CR \<and> c \<noteq> LF"
      by (simp add: polaris_def)
  qed simp
  then show ?thesis
    by (simp add: polaris_def Star_polaris_def atof_300 atof_40 atof_2 atof_44 atof_11)
qed

lemma GetStar_vega: "GetStar two_stars SL0 Star 2 = Star_vega"
proof -
  have "GetStar two_stars SL0 Star 2 =
           Star\<lparr>Label := take 16 (take 60 vega),
                 sRA := atof (take 11 (drop 17 (take 60 vega))),
                 sDec := atof (take 12 (drop 28 (take 60 vega))),
                 sMag := atof (take 5 (drop 40 (take 60 vega))),
                 Class := take 2 (drop 45 (take 60 vega)),
                 PMRA := atof (take 9 (drop 47 (take 60 vega))),
                 PMDec := atof (drop 56 (take 60 vega))\<rparr>"
  proof (rule GetStar_record)
    show "drop (nat ((2 + 4) * 61)) two_stars = take 60 vega @ drop 60 vega"
      by (simp add: two_stars_def headers_def length_polaris)
    show "length (take 60 vega) = 60" by (simp add: vega_def)
    show "\<forall>c\<in>set (take 60 vega). c \<noteq> NUL \<and> c \<noteq> CTRLZ \<and> c \<noteq> CR \<and> c \<noteq> LF"
      by (simp add: vega_def)
  qed simp
  then show ?thesis
    by (simp add: vega_def Star_vega_def atof_279 atof_38 atof_9 atof_200 atof_286)
qed

lemma fgets_vega: "fgets 61 two_stars 366 = Some (take 60 vega)"
proof -
  have "fgets 61 two_stars 366
          = Some (take 60 vega @ fgets_line (61 - 1 - length (take 60 vega))
                                   (text_mode (drop 60 vega)))"
  proof (rule fgets_record)
    show "drop (nat 366) two_stars = take 60 vega @ drop 60 vega"
      by (simp add: two_stars_def headers_def length_polaris)
    show "take 60 vega \<noteq> []" by (simp add: vega_def)
    show "\<forall>c\<in>set (take 60 vega). c \<noteq> CTRLZ \<and> c \<noteq> CR \<and> c \<noteq> LF" by (simp add: vega_def)
    show "length (take 60 vega) \<le> 61 - 1" by simp
  qed simp
  moreover have "length (take 60 vega) = 60" by (simp add: vega_def)
  ultimately show ?thesis by simp
qed

lemma fgets_cut_short: "fgets 61 cut_short ((2 + 4) * 61) = None"
  by (simp add: fgets_def cut_short_def headers_def length_polaris text_mode_CTRLZ)

lemma GetStar_cut_short: "GetStar cut_short SL0 Star 2 = Star"
  using fgets_cut_short by (intro GetStar_failed) (simp add: streclen_def)

subsection \<open>The fields of a record\<close>

text \<open>
  C2, as the code has it. For every index \<open>i\<close> with \<open>i + 4\<close> not negative (so for every
  index from 1 to the number of stars), \<open>GetStar\<close> seeks to the byte offset
  \<open>(i + 4) * 61\<close>, which succeeds, and tries to read one text line there: a line that
  is read has at most 60 characters, and when none is read (the stream is at its end
  there) the record \<^verbatim>\<open>Star\<close> is left as it was. When at least 56 bytes lie at that
  offset and the first 56 of them hold no \<open>NUL\<close>, carriage return, line feed or Ctrl-Z,
  a line is read that begins with these 56 bytes, and the fields are these bytes of
  the record, counted from 0: the label is bytes 0 to 15 (the first 16 of the 17
  bytes of the label field), the right ascension is parsed from bytes 17 to 27, the
  declination from bytes 28 to 39, the magnitude from bytes 40 to 44, the class is
  bytes 45 and 46, and the proper motion in right ascension is parsed from bytes 47
  to 55. (Nothing is said of the proper motion in declination.)
\<close>

theorem C2_GetStar_fields:
  assumes "0 \<le> index + 4" and "off = nat ((index + 4) * streclen)"
    and "r = take 56 (drop off fp)"
  shows "fseek fp ((index + 4) * streclen) = 0
         \<and> (\<forall>line. fgets (nat streclen) fp ((index + 4) * streclen) = Some line
                     \<longrightarrow> length line \<le> 60)
         \<and> (fgets (nat streclen) fp ((index + 4) * streclen) = None
              \<longrightarrow> GetStar fp SL0 Star index = Star)
         \<and> (off + 56 \<le> length fp
              \<and> (\<forall>c\<in>set r. c \<noteq> NUL \<and> c \<noteq> CTRLZ \<and> c \<noteq> CR \<and> c \<noteq> LF)
              \<longrightarrow> (\<exists>tail. fgets (nat streclen) fp ((index + 4) * streclen) = Some (r @ tail))
                  \<and> Label (GetStar fp SL0 Star index) = take 16 r
                  \<and> sRA (GetStar fp SL0 Star index) = atof (take 11 (drop 17 r))
                  \<and> sDec (GetStar fp SL0 Star index) = atof (take 12 (drop 28 r))
                  \<and> sMag (GetStar fp SL0 Star index) = atof (take 5 (drop 40 r))
                  \<and> Class (GetStar fp SL0 Star index) = take 2 (drop 45 r)
                  \<and> PMRA (GetStar fp SL0 Star index) = atof (take 9 (drop 47 r)))"
proof -
  have s: "fseek fp ((index + 4) * streclen) = 0"
    using assms(1) by (simp add: fseek_def streclen_def)
  have l: "length line \<le> 60"
    if "fgets (nat streclen) fp ((index + 4) * streclen) = Some line" for line
  proof -
    from that obtain t where "line = fgets_line 60 t"
      by (auto simp: fgets_def streclen_def Let_def split: if_splits)
    then show ?thesis
      by (simp add: length_fgets_line)
  qed
  have n: "GetStar fp SL0 Star index = Star"
    if "fgets (nat streclen) fp ((index + 4) * streclen) = None"
    using that by (intro GetStar_failed) simp
  have f: "(\<exists>tail. fgets (nat streclen) fp ((index + 4) * streclen) = Some (r @ tail))
           \<and> Label (GetStar fp SL0 Star index) = take 16 r
           \<and> sRA (GetStar fp SL0 Star index) = atof (take 11 (drop 17 r))
           \<and> sDec (GetStar fp SL0 Star index) = atof (take 12 (drop 28 r))
           \<and> sMag (GetStar fp SL0 Star index) = atof (take 5 (drop 40 r))
           \<and> Class (GetStar fp SL0 Star index) = take 2 (drop 45 r)
           \<and> PMRA (GetStar fp SL0 Star index) = atof (take 9 (drop 47 r))"
    if c: "off + 56 \<le> length fp"
      "\<forall>c\<in>set r. c \<noteq> NUL \<and> c \<noteq> CTRLZ \<and> c \<noteq> CR \<and> c \<noteq> LF"
  proof -
    from GetStar_prefix [OF assms(1,2) c(1) assms(3) c(2), of SL0 Star] obtain tail where
      t: "fgets (nat streclen) fp ((index + 4) * streclen) = Some (r @ tail)"
      and g: "GetStar fp SL0 Star index =
               Star\<lparr>Label := take 16 r,
                     sRA := atof (take 11 (drop 17 r)),
                     sDec := atof (take 12 (drop 28 r)),
                     sMag := atof (take 5 (drop 40 r)),
                     Class := take 2 (drop 45 r),
                     PMRA := atof (take 9 (drop 47 r)),
                     PMDec := atof (field (store_line SL0 (r @ tail)) 56 9 9)\<rparr>"
      by blast
    from t have "\<exists>tail. fgets (nat streclen) fp ((index + 4) * streclen) = Some (r @ tail)"
      by blast
    then show ?thesis
      unfolding g by simp
  qed
  from s l n f show ?thesis
    by blast
qed

theorem C2_GetStar_fields_witness:
  "fseek two_stars ((1 + 4) * streclen) = 0
   \<and> (\<exists>tail. fgets (nat streclen) two_stars ((1 + 4) * streclen)
                = Some ((''Polaris          '' @ ''  300.00000'' @ ''   40.000000'' @ '' 2.00''
                         @ ''F7'' @ ''    44.22'') @ tail)
              \<and> length tail \<le> 4)
   \<and> Label (GetStar two_stars (SL_junk 1) Star_zero 1) = ''Polaris         ''
   \<and> sRA (GetStar two_stars (SL_junk 1) Star_zero 1) = atof ''  300.00000''
   \<and> sDec (GetStar two_stars (SL_junk 1) Star_zero 1) = atof ''   40.000000''
   \<and> sMag (GetStar two_stars (SL_junk 1) Star_zero 1) = atof '' 2.00''
   \<and> Class (GetStar two_stars (SL_junk 1) Star_zero 1) = ''F7''
   \<and> PMRA (GetStar two_stars (SL_junk 1) Star_zero 1) = atof ''    44.22''
   \<and> fseek cut_short ((2 + 4) * streclen) = 0
   \<and> fgets (nat streclen) cut_short ((2 + 4) * streclen) = None
   \<and> GetStar cut_short (SL_junk 2) Star_polaris 2 = Star_polaris"
proof -
  have a: "0 \<le> (1::int) + 4" "305 = nat ((1 + 4) * streclen)" "305 + 56 \<le> length two_stars"
    by (simp_all add: streclen_def two_stars_def headers_def polaris_def)
  have b: "\<forall>c\<in>set (take 56 (drop 305 two_stars)).
                   c \<noteq> NUL \<and> c \<noteq> CTRLZ \<and> c \<noteq> CR \<and> c \<noteq> LF"
    unfolding take_56_polaris by simp
  note p = C2_GetStar_fields [OF a(1,2) refl, of two_stars "SL_junk 1" Star_zero]
  from p a(3) b obtain tail where
    t: "fgets (nat streclen) two_stars ((1 + 4) * streclen)
          = Some (take 56 (drop 305 two_stars) @ tail)"
    by blast
  with p have "length (take 56 (drop 305 two_stars) @ tail) \<le> 60"
    by blast
  then have "length tail \<le> 4"
    unfolding take_56_polaris by simp
  with t have r: "\<exists>tail. fgets (nat streclen) two_stars ((1 + 4) * streclen)
                = Some ((''Polaris          '' @ ''  300.00000'' @ ''   40.000000'' @ '' 2.00''
                         @ ''F7'' @ ''    44.22'') @ tail)
              \<and> length tail \<le> 4"
    unfolding take_56_polaris by blast
  have c: "0 \<le> (2::int) + 4" "366 = nat ((2 + 4) * streclen)"
    by (simp_all add: streclen_def)
  have e: "fgets (nat streclen) cut_short ((2 + 4) * streclen) = None"
    using fgets_cut_short by (simp add: streclen_def)
  note q = C2_GetStar_fields [OF c refl, of cut_short "SL_junk 2" Star_polaris]
  from q e have "fseek cut_short ((2 + 4) * streclen) = 0"
    "GetStar cut_short (SL_junk 2) Star_polaris 2 = Star_polaris"
    by blast+
  moreover from p a(3) b have
    "fseek two_stars ((1 + 4) * streclen) = 0
     \<and> Label (GetStar two_stars (SL_junk 1) Star_zero 1) = take 16 (take 56 (drop 305 two_stars))
     \<and> sRA (GetStar two_stars (SL_junk 1) Star_zero 1)
         = atof (take 11 (drop 17 (take 56 (drop 305 two_stars))))
     \<and> sDec (GetStar two_stars (SL_junk 1) Star_zero 1)
         = atof (take 12 (drop 28 (take 56 (drop 305 two_stars))))
     \<and> sMag (GetStar two_stars (SL_junk 1) Star_zero 1)
         = atof (take 5 (drop 40 (take 56 (drop 305 two_stars))))
     \<and> Class (GetStar two_stars (SL_junk 1) Star_zero 1)
         = take 2 (drop 45 (take 56 (drop 305 two_stars)))
     \<and> PMRA (GetStar two_stars (SL_junk 1) Star_zero 1)
         = atof (take 9 (drop 47 (take 56 (drop 305 two_stars))))"
    by blast
  ultimately show ?thesis
    using r e unfolding take_56_polaris by simp
qed

text \<open>
  The statement of the specification fails on the second star of the example file: the
  line read has 60 characters, not 61; the label returned is 16 characters, not the 17
  of bytes 0 to 16; and the proper motion in declination is parsed from bytes 56 to 59
  only (\<open>286\<close>), where bytes 56 to 64 would give \<open>286.2\<close>.
\<close>

theorem C2_record_counterexample:
  "fgets (nat streclen) two_stars ((2 + 4) * streclen) = Some (take 60 vega)
   \<and> length (take 60 vega) = 60
   \<and> take 17 (drop (6 * 61) two_stars) = ''Vega (Alpha Lyr.)''
   \<and> Label (GetStar two_stars (SL_junk 2) Star_polaris 2) = ''Vega (Alpha Lyr.''
   \<and> atof (take 9 (drop (6 * 61 + 56) two_stars)) = 286.2
   \<and> PMDec (GetStar two_stars (SL_junk 2) Star_polaris 2) = 286"
proof -
  have "fgets (nat streclen) two_stars ((2 + 4) * streclen) = Some (take 60 vega)"
    using fgets_vega by (simp add: streclen_def)
  moreover have "length (take 60 vega) = 60" by (simp add: vega_def)
  moreover have "take 17 (drop (6 * 61) two_stars) = ''Vega (Alpha Lyr.)''"
    by (simp add: two_stars_def headers_def length_polaris vega_def)
  moreover have "take 9 (drop (6 * 61 + 56) two_stars) = ''286.2''"
    by (simp add: two_stars_def headers_def length_polaris vega_def)
  ultimately show ?thesis
    by (simp add: GetStar_vega Star_vega_def atof_2862)
qed

subsection \<open>The label\<close>

lemma rtrim_loop_spaces:
  "p \<noteq> [] \<Longrightarrow> last p \<noteq> CHR '' ''
   \<Longrightarrow> rtrim_loop (p @ replicate k (CHR '' '') @ t) (length p + k - 1)
        = p @ replicate k NUL @ t"
proof (induction k arbitrary: t)
  case 0
  show ?case
  proof (cases "length p - 1")
    case 0
    then show ?thesis by simp
  next
    case (Suc j)
    then have j: "Suc j < length p" "length p - 1 = Suc j" by simp_all
    then have "(p @ t) ! Suc j = last p"
      using 0(1) by (simp add: nth_append last_conv_nth)
    with 0(2) Suc show ?thesis by simp
  qed
next
  case (Suc k)
  define T where "T = p @ replicate (Suc k) (CHR '' '') @ t"
  define m where "m = length p + k - 1"
  have l: "Suc m = length p + k" and i: "length p + Suc k - 1 = Suc m"
    using Suc.prems(1) by (cases p; simp add: m_def)+
  have r: "replicate (Suc k) (CHR '' '') = replicate k (CHR '' '') @ [CHR '' '']"
    by (simp add: replicate_append_same)
  have n: "T ! Suc m = CHR '' ''"
    unfolding l T_def r by (simp add: nth_append)
  have u: "T[Suc m := NUL] = p @ replicate k (CHR '' '') @ NUL # t"
    unfolding l T_def r by (simp add: list_update_append)
  have "rtrim_loop T (Suc m) = rtrim_loop (T[Suc m := NUL]) m"
    using n by simp
  also have "\<dots> = rtrim_loop (p @ replicate k (CHR '' '') @ NUL # t) m"
    by (simp only: u)
  also have "\<dots> = rtrim_loop (p @ replicate k (CHR '' '') @ NUL # t) (length p + k - 1)"
    by (simp only: m_def)
  also have "\<dots> = p @ replicate k NUL @ NUL # t"
    by (rule Suc.IH [OF Suc.prems])
  also have "\<dots> = p @ replicate (Suc k) NUL @ t"
    by (simp add: replicate_append_same)
  finally show ?case
    unfolding i T_def .
qed

lemma spec_trim_decomp:
  "s = spec_trim s @ replicate (length (takeWhile (\<lambda>c. c = CHR '' '') (rev s))) (CHR '' '')"
proof -
  let ?P = "\<lambda>c. c = CHR '' ''"
  have "takeWhile ?P (rev s) = replicate (length (takeWhile ?P (rev s))) (CHR '' '')"
    by (rule replicate_length_same [symmetric]) (auto dest: set_takeWhileD)
  then have "rev (takeWhile ?P (rev s)) = replicate (length (takeWhile ?P (rev s))) (CHR '' '')"
    by (metis rev_replicate)
  moreover have "s = rev (dropWhile ?P (rev s)) @ rev (takeWhile ?P (rev s))"
    by (metis rev_append rev_rev_ident takeWhile_dropWhile_id)
  ultimately show ?thesis
    unfolding spec_trim_def by simp
qed

lemma rtrim_spec_trim:
  assumes "NUL \<notin> set s" and "\<exists>c\<in>set s. c \<noteq> CHR '' ''"
  shows "cstr (rtrim (s @ NUL # z)) = spec_trim s"
proof -
  let ?P = "\<lambda>c. c = CHR '' ''"
  define p where "p = spec_trim s"
  define k where "k = length (takeWhile ?P (rev s))"
  have s: "s = p @ replicate k (CHR '' '')"
    unfolding p_def k_def by (rule spec_trim_decomp)
  have d: "dropWhile ?P (rev s) \<noteq> []"
    using assms(2) by (auto simp: dropWhile_eq_Nil_conv)
  then have p: "p \<noteq> []" by (simp add: p_def spec_trim_def)
  have "last p = hd (dropWhile ?P (rev s))"
    using d by (simp add: p_def spec_trim_def last_rev)
  with hd_dropWhile [OF d] have lp: "last p \<noteq> CHR '' ''" by simp
  have np: "NUL \<notin> set p"
    using assms(1) s by (metis Un_iff set_append)
  have "cstr (s @ NUL # z) = s"
    by (rule cstr_append_NUL [OF assms(1)])
  moreover have "length s = length p + k"
    using arg_cong [OF s, of length] by simp
  ultimately have "rtrim (s @ NUL # z) = rtrim_loop (s @ NUL # z) (length p + k - 1)"
    by (simp add: rtrim_def)
  also have "\<dots> = rtrim_loop (p @ replicate k (CHR '' '') @ NUL # z) (length p + k - 1)"
    using arg_cong [OF s, of "\<lambda>x. rtrim_loop (x @ NUL # z) (length p + k - 1)"] by simp
  also have "\<dots> = p @ replicate k NUL @ NUL # z"
    by (rule rtrim_loop_spaces [OF p lp])
  also have "\<dots> = p @ NUL # replicate k NUL @ z"
    by (simp add: replicate_app_Cons_same)
  finally show ?thesis
    using np by (simp add: cstr_append_NUL p_def)
qed

lemma spec_trim_polaris: "spec_trim ''Polaris         '' = ''Polaris''"
  by (simp add: spec_trim_def)

text \<open>
  C5, as the code has it. A record read returns the label untrimmed: the first 16
  bytes of the record, spaces included (both calls of \<open>rtrim\<close> are commented out).
  \<open>rtrim\<close> itself, applied to the array of a label that holds a character other than
  a space, leaves the label with the spaces at its right end stripped, up to the
  first character that is not a space scanning from right to left, the spaces before
  it kept. Reading the record whose label field is \<open>Polaris\<close> padded to 17 bytes
  gives \<open>Polaris\<close> followed by 9 spaces, which \<open>rtrim\<close> turns into \<open>Polaris\<close>.
\<close>

theorem C5_label_untrimmed_and_rtrim:
  "(0 \<le> index + 4 \<and> off = nat ((index + 4) * streclen) \<and> off + 56 \<le> length fp
      \<and> r = take 56 (drop off fp)
      \<and> (\<forall>c\<in>set r. c \<noteq> NUL \<and> c \<noteq> CTRLZ \<and> c \<noteq> CR \<and> c \<noteq> LF)
    \<longrightarrow> Label (GetStar fp SL0 Star index) = take 16 r)
   \<and> (NUL \<notin> set s \<and> (\<exists>c\<in>set s. c \<noteq> CHR '' '')
    \<longrightarrow> cstr (rtrim (s @ NUL # z)) = spec_trim s)"
proof (intro conjI impI)
  assume a: "0 \<le> index + 4 \<and> off = nat ((index + 4) * streclen) \<and> off + 56 \<le> length fp
      \<and> r = take 56 (drop off fp)
      \<and> (\<forall>c\<in>set r. c \<noteq> NUL \<and> c \<noteq> CTRLZ \<and> c \<noteq> CR \<and> c \<noteq> LF)"
  then have "\<exists>tail. fgets (nat streclen) fp ((index + 4) * streclen) = Some (r @ tail)
           \<and> length (r @ tail) \<le> 60
           \<and> GetStar fp SL0 Star index =
               Star\<lparr>Label := take 16 r,
                     sRA := atof (take 11 (drop 17 r)),
                     sDec := atof (take 12 (drop 28 r)),
                     sMag := atof (take 5 (drop 40 r)),
                     Class := take 2 (drop 45 r),
                     PMRA := atof (take 9 (drop 47 r)),
                     PMDec := atof (field (store_line SL0 (r @ tail)) 56 9 9)\<rparr>"
    by (intro GetStar_prefix) blast+
  then obtain tail where "GetStar fp SL0 Star index =
               Star\<lparr>Label := take 16 r,
                     sRA := atof (take 11 (drop 17 r)),
                     sDec := atof (take 12 (drop 28 r)),
                     sMag := atof (take 5 (drop 40 r)),
                     Class := take 2 (drop 45 r),
                     PMRA := atof (take 9 (drop 47 r)),
                     PMDec := atof (field (store_line SL0 (r @ tail)) 56 9 9)\<rparr>"
    by blast
  then show "Label (GetStar fp SL0 Star index) = take 16 r" by simp
next
  assume "NUL \<notin> set s \<and> (\<exists>c\<in>set s. c \<noteq> CHR '' '')"
  then show "cstr (rtrim (s @ NUL # z)) = spec_trim s"
    by (intro rtrim_spec_trim) blast+
qed

theorem C5_label_untrimmed_and_rtrim_witness:
  "Label (GetStar two_stars (SL_junk 1) Star_zero 1) = ''Polaris         ''
   \<and> cstr (rtrim (''Polaris         '' @ [NUL])) = ''Polaris''"
proof -
  have "0 \<le> (1::int) + 4" "305 = nat ((1 + 4) * streclen)" "305 + 56 \<le> length two_stars"
    by (simp_all add: streclen_def two_stars_def headers_def polaris_def)
  moreover have "\<forall>c\<in>set (take 56 (drop 305 two_stars)).
                   c \<noteq> NUL \<and> c \<noteq> CTRLZ \<and> c \<noteq> CR \<and> c \<noteq> LF"
    unfolding take_56_polaris by simp
  moreover have "NUL \<notin> set ''Polaris         ''" "\<exists>c\<in>set ''Polaris         ''. c \<noteq> CHR '' ''"
    by simp_all
  ultimately show ?thesis
    using C5_label_untrimmed_and_rtrim [of 1 305 two_stars "take 56 (drop 305 two_stars)"
        "SL_junk 1" Star_zero "''Polaris         ''" "[]"]
    unfolding take_56_polaris by (simp add: spec_trim_polaris)
qed

text \<open>
  The statement of the specification fails on the first star of the example file: the
  label field trims to \<open>Polaris\<close>, and the label read keeps its spaces.
\<close>

theorem C5_trimmed_label_counterexample:
  "take 17 (drop (5 * 61) two_stars) = ''Polaris          ''
   \<and> spec_trim (take 17 (drop (5 * 61) two_stars)) = ''Polaris''
   \<and> Label (GetStar two_stars (SL_junk 1) Star_zero 1) = ''Polaris         ''
   \<and> Label (GetStar two_stars (SL_junk 1) Star_zero 1) \<noteq> ''Polaris''"
proof -
  have "take 17 (drop (5 * 61) two_stars) = ''Polaris          ''"
    by (simp add: two_stars_def headers_def polaris_def)
  moreover have "spec_trim ''Polaris          '' = ''Polaris''"
    by (simp add: spec_trim_def)
  moreover have "GetStar two_stars (SL_junk 1) Star_zero 1 = Star_polaris"
    by (rule GetStar_polaris) (simp add: two_stars_def)
  ultimately show ?thesis
    by (simp add: Star_polaris_def)
qed

subsection \<open>The star loop\<close>

lemma star_loop_step:
  "i \<le> Stars DsC \<Longrightarrow> draw_star DsC (GetStar fp (J i) Star i) = Inr (DsC', drawn)
   \<Longrightarrow> star_loop fp J i DsC Star out
        = star_loop fp J (i + 1) DsC' (GetStar fp (J i) Star i) (out @ drawn)"
  by (subst star_loop.simps) simp

lemma star_loop_done:
  "\<not> i \<le> Stars DsC \<Longrightarrow> star_loop fp SL0 i DsC Star out = Inr (DsC, Star, out)"
  by (subst star_loop.simps) simp

lemma EQConvert_dMag: "EQConvert DsC RA Dec = Inr DsC' \<Longrightarrow> dMag DsC' = dMag DsC"
  by (auto simp: EQConvert_def Let_def split: sum.splits if_splits)

lemma star_size_bright: "star_size 6.5 2 = 5"
  by (simp add: star_size_def)

lemma trunc_5: "trunc 5 = 5"
  by (simp add: trunc_def)

lemma draw_star_bright:
  assumes "sMag Star = 2" and "dMag DsC = 6.5"
    and "EQConvert DsC (sRA Star) (sDec Star) = Inr DsC'"
  shows "draw_star DsC Star =
           Inr (DsC', [Ellipse (CX DsC' - 5) (CY DsC' - 5) (CX DsC' + 5) (CY DsC' + 5),
                       TextOut (CX DsC' + 5) (CY DsC' - 5) (cstr (Label Star))])"
proof -
  have m: "dMag DsC' = 6.5"
    using EQConvert_dMag [OF assms(3)] assms(2) by simp
  have sz: "star_size (dMag DsC') (sMag Star) = 5"
    unfolding m assms(1) by (rule star_size_bright)
  have le: "sMag Star \<le> dMag DsC" and lt: "sMag Star < dMag DsC' - 3"
    by (simp_all add: m assms(1,2))
  show ?thesis
    by (simp add: draw_star_def Let_def sz le lt assms(3) trunc_5)
qed

lemma draw_star_faint:
  assumes "dMag DsC < sMag Star"
  shows "draw_star DsC Star = Inr (DsC, [])"
  using assms by (simp add: draw_star_def)

lemma paint_two_star_frame:
  assumes "length fp = 61 * 7"
    and "Star1 = GetStar fp (SL0 1) Star 1" and "Star2 = GetStar fp (SL0 2) Star1 2"
    and "sMag Star1 = 2" and "sMag Star2 = 9" and "dMag DsC = 6.5"
    and "EQConvert (DsC\<lparr>Stars := 2\<rparr>) (sRA Star1) (sDec Star1) = Inr DsC'"
  shows "paint_stars (Some fp) SL0 DsC Star =
           Inr (DsC', Star2,
                [Ellipse (CX DsC' - 5) (CY DsC' - 5) (CX DsC' + 5) (CY DsC' + 5),
                 TextOut (CX DsC' + 5) (CY DsC' - 5) (cstr (Label Star1))])"
proof -
  let ?D = "DsC\<lparr>Stars := 2\<rparr>"
  let ?out = "[Ellipse (CX DsC' - 5) (CY DsC' - 5) (CX DsC' + 5) (CY DsC' + 5),
               TextOut (CX DsC' + 5) (CY DsC' - 5) (cstr (Label Star1))]"
  have n: "check_datafile fp = Inr 2"
    using assms(1) by (simp add: check_datafile_eq)
  have d1: "draw_star ?D (GetStar fp (SL0 1) Star 1) = Inr (DsC', ?out)"
    unfolding assms(2) [symmetric]
    by (rule draw_star_bright [OF assms(4) _ assms(7)]) (simp add: assms(6))
  have s: "Stars DsC' = 2" "dMag DsC' = 6.5"
    using EQConvert_Stars [OF assms(7)] EQConvert_dMag [OF assms(7)] assms(6) by simp_all
  have d2: "draw_star DsC' (GetStar fp (SL0 2) Star1 2) = Inr (DsC', [])"
    using assms(3,5) s by (intro draw_star_faint) simp
  have "star_loop fp SL0 1 ?D Star [] = star_loop fp SL0 (1 + 1) DsC' (GetStar fp (SL0 1) Star 1) ([] @ ?out)"
    using d1 by (intro star_loop_step [where i = 1 and J = SL0]) simp_all
  also have "\<dots> = star_loop fp SL0 2 DsC' Star1 ?out"
    using assms(2) by simp
  also have "\<dots> = star_loop fp SL0 (2 + 1) DsC' (GetStar fp (SL0 2) Star1 2) (?out @ [])"
    using d2 by (intro star_loop_step [where i = 2 and J = SL0]) (simp_all add: s)
  also have "\<dots> = Inr (DsC', Star2, ?out)"
    using assms(3) s by (simp add: star_loop_done)
  finally show ?thesis
    by (simp add: paint_stars_def n)
qed

lemma EQConvert_vga:
  "EQConvert (ds_vga\<lparr>CX := x, CY := y, Stars := 2\<rparr>) 300 40
     = Inr (ds_vga\<lparr>CX := 320, CY := 240, Stars := 2\<rparr>)"
  using EQConvert_center [of "ds_vga\<lparr>CX := x, CY := y, Stars := 2\<rparr>"]
  by (simp add: ds_vga_def INT_MAX_def)

lemma paint_two_stars:
  "paint_stars (Some two_stars) SL_junk ds_vga Star_zero =
     Inr (ds_vga\<lparr>CX := 320, CY := 240, Stars := 2\<rparr>, Star_vega,
          [Ellipse 315 235 325 245, TextOut 325 235 ''Polaris         ''])"
proof -
  have "paint_stars (Some two_stars) SL_junk ds_vga Star_zero =
          Inr (ds_vga\<lparr>CX := 320, CY := 240, Stars := 2\<rparr>, Star_vega,
            [Ellipse (CX (ds_vga\<lparr>CX := 320, CY := 240, Stars := 2\<rparr>) - 5)
               (CY (ds_vga\<lparr>CX := 320, CY := 240, Stars := 2\<rparr>) - 5)
               (CX (ds_vga\<lparr>CX := 320, CY := 240, Stars := 2\<rparr>) + 5)
               (CY (ds_vga\<lparr>CX := 320, CY := 240, Stars := 2\<rparr>) + 5),
             TextOut (CX (ds_vga\<lparr>CX := 320, CY := 240, Stars := 2\<rparr>) + 5)
               (CY (ds_vga\<lparr>CX := 320, CY := 240, Stars := 2\<rparr>) - 5)
               (cstr (Label Star_polaris))])"
  proof (rule paint_two_star_frame)
    show "length two_stars = 61 * 7"
      by (simp add: two_stars_def headers_def polaris_def vega_def)
    show "Star_polaris = GetStar two_stars (SL_junk 1) Star_zero 1"
      by (rule GetStar_polaris [symmetric]) (simp add: two_stars_def)
    show "Star_vega = GetStar two_stars (SL_junk 2) Star_polaris 2"
      by (rule GetStar_vega [symmetric])
    show "sMag Star_polaris = 2" "sMag Star_vega = 9" "dMag ds_vga = 6.5"
      by (simp_all add: Star_polaris_def Star_vega_def ds_vga_def)
    show "EQConvert (ds_vga\<lparr>Stars := 2\<rparr>) (sRA Star_polaris) (sDec Star_polaris)
            = Inr (ds_vga\<lparr>CX := 320, CY := 240, Stars := 2\<rparr>)"
      using EQConvert_vga [of 0 0] by (simp add: Star_polaris_def ds_vga_def)
  qed
  then show ?thesis
    by (simp add: Star_polaris_def cstr_def)
qed

lemma paint_cut_short:
  "paint_stars (Some cut_short) SL_junk ds_vga Star_zero =
     Inr (ds_vga\<lparr>CX := 320, CY := 240, Stars := 2\<rparr>, Star_polaris,
          [Ellipse 315 235 325 245, TextOut 325 235 ''Polaris         '',
           Ellipse 315 235 325 245, TextOut 325 235 ''Polaris         ''])"
proof -
  let ?D = "ds_vga\<lparr>Stars := 2\<rparr>"
  let ?D' = "ds_vga\<lparr>CX := 320, CY := 240, Stars := 2\<rparr>"
  let ?out = "[Ellipse 315 235 325 245, TextOut 325 235 ''Polaris         '']"
  have n: "check_datafile cut_short = Inr 2"
    by (simp add: check_datafile_eq cut_short_def headers_def polaris_def)
  have g1: "GetStar cut_short (SL_junk 1) Star_zero 1 = Star_polaris"
    by (rule GetStar_polaris) (simp add: cut_short_def)
  have g2: "GetStar cut_short (SL_junk 2) Star_polaris 2 = Star_polaris"
    by (rule GetStar_cut_short)
  have d: "draw_star D Star_polaris = Inr (?D', ?out)"
    if "D = ds_vga\<lparr>CX := x, CY := y, Stars := 2\<rparr>" for D x y
  proof -
    have "draw_star D Star_polaris =
            Inr (?D', [Ellipse (CX ?D' - 5) (CY ?D' - 5) (CX ?D' + 5) (CY ?D' + 5),
                       TextOut (CX ?D' + 5) (CY ?D' - 5) (cstr (Label Star_polaris))])"
      unfolding that
      by (rule draw_star_bright)
        (simp_all add: Star_polaris_def EQConvert_vga, simp add: ds_vga_def)
    then show ?thesis by (simp add: Star_polaris_def cstr_def)
  qed
  have d1: "draw_star ?D (GetStar cut_short (SL_junk 1) Star_zero 1) = Inr (?D', ?out)"
    unfolding g1 by (rule d [where x = 0 and y = 0]) (simp add: ds_vga_def)
  have d2: "draw_star ?D' (GetStar cut_short (SL_junk 2) Star_polaris 2) = Inr (?D', ?out)"
    unfolding g2 by (rule d [where x = 320 and y = 240]) simp
  have "star_loop cut_short SL_junk 1 ?D Star_zero []
          = star_loop cut_short SL_junk (1 + 1) ?D'
              (GetStar cut_short (SL_junk 1) Star_zero 1) ([] @ ?out)"
    using d1 by (intro star_loop_step [where i = 1 and J = SL_junk]) simp_all
  also have "\<dots> = star_loop cut_short SL_junk 2 ?D' Star_polaris ?out"
    by (simp add: g1)
  also have "\<dots> = star_loop cut_short SL_junk (2 + 1) ?D'
                      (GetStar cut_short (SL_junk 2) Star_polaris 2) (?out @ ?out)"
    using d2 by (intro star_loop_step [where i = 2 and J = SL_junk]) simp_all
  also have "\<dots> = Inr (?D', Star_polaris, ?out @ ?out)"
    by (simp add: g2 star_loop_done)
  finally show ?thesis
    by (simp add: paint_stars_def n)
qed

subsection \<open>A read that fails\<close>

text \<open>
  C4, at a failing read. In the second example file the record of the second star
  begins with Ctrl-Z, so that the read for index 2 fails: \<open>fseek\<close> succeeds and
  \<open>fgets\<close> returns \<open>NULL\<close>. \<open>GetStar\<close> leaves \<open>Star\<close> as the first star left it, and
  the loop draws that star a second time, for index 2: the frame holds the ellipse and
  the label of the first star twice.
\<close>

theorem C4_failed_read_redraws:
  "check_datafile cut_short = Inr 2
   \<and> fseek cut_short ((2 + 4) * streclen) = 0
   \<and> fgets (nat streclen) cut_short ((2 + 4) * streclen) = None
   \<and> GetStar cut_short (SL_junk 1) Star_zero 1 = Star_polaris
   \<and> GetStar cut_short (SL_junk 2) Star_polaris 2 = Star_polaris
   \<and> directives (paint_stars (Some cut_short) SL_junk ds_vga Star_zero)
       = [Ellipse 315 235 325 245, TextOut 325 235 ''Polaris         '',
          Ellipse 315 235 325 245, TextOut 325 235 ''Polaris         '']"
proof -
  have "check_datafile cut_short = Inr 2"
    by (simp add: check_datafile_eq cut_short_def headers_def polaris_def)
  moreover have "GetStar cut_short (SL_junk 1) Star_zero 1 = Star_polaris"
    by (rule GetStar_polaris) (simp add: cut_short_def)
  moreover have "fgets (nat streclen) cut_short ((2 + 4) * streclen) = None"
    using fgets_cut_short by (simp add: streclen_def)
  ultimately show ?thesis
    by (simp add: paint_cut_short directives_def GetStar_cut_short fseek_def streclen_def)
qed

subsection \<open>The frame of two stars\<close>

text \<open>
  C10, as the code has it. For a data file of five header records and two star
  records that \<open>GetStar\<close> reads with the magnitudes 2.0 and 9.0, painting with the
  limiting magnitude 6.5 draws exactly one symbol, an ellipse of radius 5 at the
  projected position of the star of magnitude 2.0, followed by the text of its label
  (the star is more than three magnitudes brighter than the limit); nothing is drawn
  for the star of magnitude 9.0, since a star whose magnitude is greater than the
  limiting magnitude draws nothing.
\<close>

theorem C10_two_star_frame:
  assumes "length fp = 61 * 7"
    and "Star1 = GetStar fp (SL0 1) Star 1" and "Star2 = GetStar fp (SL0 2) Star1 2"
    and "sMag Star1 = 2" and "sMag Star2 = 9" and "dMag DsC = 6.5"
    and "EQConvert (DsC\<lparr>Stars := 2\<rparr>) (sRA Star1) (sDec Star1) = Inr DsC'"
  shows "paint_stars (Some fp) SL0 DsC Star =
           Inr (DsC', Star2,
                [Ellipse (CX DsC' - 5) (CY DsC' - 5) (CX DsC' + 5) (CY DsC' + 5),
                 TextOut (CX DsC' + 5) (CY DsC' - 5) (cstr (Label Star1))])
         \<and> draw_star DsC' Star2 = Inr (DsC', [])
         \<and> (\<forall>D S. dMag D < sMag S \<longrightarrow> draw_star D S = Inr (D, []))"
proof -
  have "dMag DsC' < sMag Star2"
    using EQConvert_dMag [OF assms(7)] assms(5,6) by simp
  then have "draw_star DsC' Star2 = Inr (DsC', [])"
    by (rule draw_star_faint)
  with paint_two_star_frame [OF assms] show ?thesis
    by (simp add: draw_star_faint)
qed

theorem C10_two_star_frame_witness:
  "paint_stars (Some two_stars) SL_junk ds_vga Star_zero =
     Inr (ds_vga\<lparr>CX := 320, CY := 240, Stars := 2\<rparr>, Star_vega,
          [Ellipse 315 235 325 245, TextOut 325 235 ''Polaris         ''])
   \<and> draw_star (ds_vga\<lparr>CX := 320, CY := 240, Stars := 2\<rparr>) Star_vega
       = Inr (ds_vga\<lparr>CX := 320, CY := 240, Stars := 2\<rparr>, [])"
proof -
  have "length two_stars = 61 * 7"
    by (simp add: two_stars_def headers_def polaris_def vega_def)
  moreover have "Star_polaris = GetStar two_stars (SL_junk 1) Star_zero 1"
    by (rule GetStar_polaris [symmetric]) (simp add: two_stars_def)
  moreover have "Star_vega = GetStar two_stars (SL_junk 2) Star_polaris 2"
    by (rule GetStar_vega [symmetric])
  moreover have "sMag Star_polaris = 2" "sMag Star_vega = 9" "dMag ds_vga = 6.5"
    by (simp_all add: Star_polaris_def Star_vega_def ds_vga_def)
  moreover have "EQConvert (ds_vga\<lparr>Stars := 2\<rparr>) (sRA Star_polaris) (sDec Star_polaris)
            = Inr (ds_vga\<lparr>CX := 320, CY := 240, Stars := 2\<rparr>)"
    using EQConvert_vga [of 0 0] by (simp add: Star_polaris_def ds_vga_def)
  ultimately have "paint_stars (Some two_stars) SL_junk ds_vga Star_zero =
          Inr (ds_vga\<lparr>CX := 320, CY := 240, Stars := 2\<rparr>, Star_vega,
            [Ellipse (CX (ds_vga\<lparr>CX := 320, CY := 240, Stars := 2\<rparr>) - 5)
               (CY (ds_vga\<lparr>CX := 320, CY := 240, Stars := 2\<rparr>) - 5)
               (CX (ds_vga\<lparr>CX := 320, CY := 240, Stars := 2\<rparr>) + 5)
               (CY (ds_vga\<lparr>CX := 320, CY := 240, Stars := 2\<rparr>) + 5),
             TextOut (CX (ds_vga\<lparr>CX := 320, CY := 240, Stars := 2\<rparr>) + 5)
               (CY (ds_vga\<lparr>CX := 320, CY := 240, Stars := 2\<rparr>) - 5)
               (cstr (Label Star_polaris))])
         \<and> draw_star (ds_vga\<lparr>CX := 320, CY := 240, Stars := 2\<rparr>) Star_vega
              = Inr (ds_vga\<lparr>CX := 320, CY := 240, Stars := 2\<rparr>, [])
         \<and> (\<forall>D S. dMag D < sMag S \<longrightarrow> draw_star D S = Inr (D, []))"
    by (rule C10_two_star_frame)
  then show ?thesis
    by (simp add: Star_polaris_def cstr_def)
qed

text \<open>
  The statement of the specification (exactly one drawing directive) fails on the
  example file: the frame holds two directives, the ellipse and the label of the first
  star.
\<close>

theorem C10_one_directive_counterexample:
  "check_datafile two_stars = Inr 2
   \<and> sMag (GetStar two_stars (SL_junk 1) Star_zero 1) = 2
   \<and> sMag (GetStar two_stars (SL_junk 2) Star_polaris 2) = 9
   \<and> dMag ds_vga = 6.5
   \<and> directives (paint_stars (Some two_stars) SL_junk ds_vga Star_zero)
       = [Ellipse 315 235 325 245, TextOut 325 235 ''Polaris         '']
   \<and> length (directives (paint_stars (Some two_stars) SL_junk ds_vga Star_zero)) = 2"
proof -
  have "check_datafile two_stars = Inr 2"
    by (simp add: check_datafile_eq two_stars_def headers_def polaris_def vega_def)
  moreover have "GetStar two_stars (SL_junk 1) Star_zero 1 = Star_polaris"
    by (rule GetStar_polaris) (simp add: two_stars_def)
  then have "sMag (GetStar two_stars (SL_junk 1) Star_zero 1) = 2"
    by (simp add: Star_polaris_def)
  moreover have "sMag (GetStar two_stars (SL_junk 2) Star_polaris 2) = 9"
    by (simp add: GetStar_vega Star_vega_def)
  moreover have "dMag ds_vga = 6.5"
    by (simp add: ds_vga_def)
  moreover have "directives (paint_stars (Some two_stars) SL_junk ds_vga Star_zero)
       = [Ellipse 315 235 325 245, TextOut 325 235 ''Polaris         '']"
    by (simp add: paint_two_stars directives_def)
  ultimately show ?thesis
    by simp
qed

subsection \<open>Normalising an angle\<close>

lemma rne_near:
  assumes "\<bar>x - of_int k\<bar> < 1 / 2"
  shows "rne x = k"
proof -
  have "x - of_int k < 1 / 2" "of_int k - x < 1 / 2"
    using assms by linarith+
  then consider "\<lfloor>x\<rfloor> = k" | "\<lfloor>x\<rfloor> = k - 1"
    by linarith
  then show ?thesis
  proof cases
    case 1
    with \<open>x - of_int k < 1 / 2\<close> show ?thesis by (simp add: rne_def)
  next
    case 2
    then have "1 / 2 < x - of_int \<lfloor>x\<rfloor>"
      using \<open>of_int k - x < 1 / 2\<close> by simp
    with 2 show ?thesis by (simp add: rne_def Let_def)
  qed
qed

lemma rne_error: "\<bar>of_int (rne x) - x\<bar> \<le> 1 / 2"
  unfolding rne_def Let_def by (auto; linarith)

lemma round53_binade:
  assumes "2 powi n \<le> \<bar>x\<bar>" and "\<bar>x\<bar> < 2 powi (n + 1)"
  shows "round53 x = of_int (rne (x / 2 powi (n - 52))) * 2 powi (n - 52)"
proof -
  have p: "0 < \<bar>x\<bar>"
    using assms(1) by (smt (verit) zero_less_power_int)
  have "(2::real) powr of_int n = 2 powi n" "(2::real) powr (of_int n + 1) = 2 powi (n + 1)"
    using powr_real_of_int' [of 2 n] powr_real_of_int' [of 2 "n + 1"] by simp_all
  then have "\<lfloor>log 2 \<bar>x\<bar>\<rfloor> = n"
    using assms p by (simp add: floor_log_eq_powr_iff)
  with p show ?thesis
    by (simp add: round53_def Let_def)
qed

lemma round53_power: "round53 (2 ^ 100) = 2 ^ 100"
proof -
  have "round53 (2 ^ 100) = of_int (rne (2 ^ 100 / 2 powi (100 - 52))) * 2 powi (100 - 52)"
    by (rule round53_binade) simp_all
  moreover have "(2 ^ 100 :: real) / 2 powi (100 - 52) = of_int (2 ^ 52)"
    by simp
  moreover have "rne (of_int (2 ^ 52)) = 2 ^ 52"
    by (rule rne_near) simp
  ultimately show ?thesis by simp
qed

lemma round53_TWOPI_bounds: "5 < round53 TWOPI \<and> round53 TWOPI < 7"
proof -
  define y where "y = TWOPI / 2 powi (2 - 52)"
  define u :: real where "u = 2 powi (2 - 52)"
  have u: "0 < u" "u \<le> 1"
    by (simp_all add: u_def power_int_minus field_simps)
  have "round53 TWOPI = of_int (rne y) * u"
    unfolding y_def u_def by (rule round53_binade) (simp_all add: TWOPI_def)
  moreover have "y * u = TWOPI"
    by (simp add: y_def u_def)
  ultimately have "round53 TWOPI - TWOPI = (of_int (rne y) - y) * u"
    by (simp add: algebra_simps)
  then have "\<bar>round53 TWOPI - TWOPI\<bar> = \<bar>of_int (rne y) - y\<bar> * u"
    using u by (simp add: abs_mult)
  also have "\<dots> \<le> 1 / 2 * 1"
    using rne_error [of y] u by (intro mult_mono) simp_all
  finally have a: "\<bar>round53 TWOPI - TWOPI\<bar> \<le> 1 / 2"
    by simp
  have t: "6.2 < TWOPI" "TWOPI < 6.3"
    by (simp_all add: TWOPI_def)
  have "5 < round53 TWOPI"
    using a t by linarith
  moreover have "round53 TWOPI < 7"
    using a t by linarith
  ultimately show ?thesis
    by simp
qed

lemma round53_absorb:
  assumes "0 < d" and "d < 7"
  shows "round53 (2 ^ 100 - d) = 2 ^ 100"
proof -
  define x :: real where "x = 2 ^ 100 - d"
  have e: "x / 2 powi (99 - 52) = of_int (2 ^ 53) - d / 2 ^ 47"
    by (simp add: x_def field_simps)
  have r: "rne (x / 2 powi (99 - 52)) = 2 ^ 53"
    unfolding e using assms by (intro rne_near) (simp add: field_simps)
  have "round53 x = of_int (rne (x / 2 powi (99 - 52))) * 2 powi (99 - 52)"
    using assms by (intro round53_binade) (simp_all add: x_def)
  also have "\<dots> = of_int (2 ^ 53) * 2 powi (99 - 52)"
    by (simp only: r)
  also have "\<dots> = 2 ^ 100"
    by simp
  finally show ?thesis
    by (simp only: x_def)
qed

lemma sub_loop_stuck: "sub_loop (2 ^ 100) = None"
proof -
  have s: "round53 (2 ^ 100 - round53 TWOPI) = 2 ^ 100"
    using round53_TWOPI_bounds by (intro round53_absorb) simp_all
  have "x \<noteq> 2 ^ 100" if "sub_loop x = Some y" for x y
  proof (rule sub_loop.raw_induct [where P = "\<lambda>x y. x \<noteq> 2 ^ 100", OF _ that])
    fix f :: "real \<Rightarrow> real option" and t y
    assume IH: "\<And>x y. f x = Some y \<Longrightarrow> x \<noteq> 2 ^ 100"
      and step: "(if round53 TWOPI \<le> t then f (round53 (t - round53 TWOPI)) else Some t)
                   = Some y"
    show "t \<noteq> 2 ^ 100"
    proof
      assume t: "t = 2 ^ 100"
      have "round53 TWOPI \<le> 2 ^ 100"
        using round53_TWOPI_bounds by simp
      with step have "f (round53 (2 ^ 100 - round53 TWOPI)) = Some y"
        unfolding t by (simp only: if_True)
      then have "f (2 ^ 100) = Some y"
        by (simp only: s)
      with IH show False by blast
    qed
  qed
  then show ?thesis by (cases "sub_loop (2 ^ 100 :: real)") auto
qed

lemma round53_tiny: "round53 (- (1 / 2 ^ 60)) = - (1 / 2 ^ 60)"
proof -
  define x :: real where "x = - (1 / 2 ^ 60)"
  have p: "(2::real) powi (- 60) = 1 / 2 ^ 60" "(2::real) powi (- 60 + 1) = 1 / 2 ^ 59"
    "(2::real) powi (- 60 - 52) = 1 / 2 ^ 112"
    by (simp_all add: power_int_minus field_simps)
  have e: "x / 2 powi (- 60 - 52) = of_int (- (2 ^ 52))"
    unfolding p by (simp add: x_def)
  have r: "rne (x / 2 powi (- 60 - 52)) = - (2 ^ 52)"
    unfolding e by (rule rne_near) simp
  have "round53 x = of_int (rne (x / 2 powi (- 60 - 52))) * 2 powi (- 60 - 52)"
    by (rule round53_binade) (simp_all add: p x_def)
  also have "\<dots> = of_int (- (2 ^ 52)) * 2 powi (- 60 - 52)"
    by (simp only: r)
  also have "\<dots> = x"
    unfolding p by (simp add: x_def)
  finally show ?thesis
    by (simp only: x_def)
qed

lemma round53_TWOPI_grid:
  "\<exists>k. round53 TWOPI = of_int k / 2 ^ 50"
proof -
  have "round53 TWOPI = of_int (rne (TWOPI / 2 powi (2 - 52))) * 2 powi (2 - 52)"
    by (rule round53_binade) (simp_all add: TWOPI_def)
  moreover have "(2::real) powi (2 - 52) = 1 / 2 ^ 50"
    by (simp add: power_int_minus field_simps)
  ultimately show ?thesis by simp
qed

lemma round53_add_tiny: "round53 (- (1 / 2 ^ 60) + round53 TWOPI) = round53 TWOPI"
proof -
  obtain k where k: "round53 TWOPI = of_int k / 2 ^ 50"
    using round53_TWOPI_grid by blast
  define x :: real where "x = - (1 / 2 ^ 60) + round53 TWOPI"
  have p: "(2::real) powi (2 - 52) = 1 / 2 ^ 50"
    by (simp add: power_int_minus field_simps)
  have b: "4 < x" "x < 8"
    using round53_TWOPI_bounds by (simp_all add: x_def)
  have e: "x / 2 powi (2 - 52) = of_int k - 1 / 2 ^ 10"
    unfolding p x_def k by (simp add: field_simps)
  have r: "rne (x / 2 powi (2 - 52)) = k"
    unfolding e by (rule rne_near) simp
  have "round53 x = of_int (rne (x / 2 powi (2 - 52))) * 2 powi (2 - 52)"
    using b by (intro round53_binade) simp_all
  also have "\<dots> = of_int k * 2 powi (2 - 52)"
    by (simp only: r)
  also have "\<dots> = round53 TWOPI"
    unfolding p k by simp
  finally show ?thesis
    by (simp only: x_def)
qed

lemma Normalize_tiny: "NormalizeZeroTwoPI (- (1 / 2 ^ 60)) = Some (round53 TWOPI)"
proof -
  have t: "5 < round53 TWOPI" using round53_TWOPI_bounds by simp
  have "sub_loop (- (1 / 2 ^ 60)) = Some (- (1 / 2 ^ 60))"
    using t by (subst sub_loop.simps) simp
  moreover have "add_loop (- (1 / 2 ^ 60)) = add_loop (round53 TWOPI)"
  proof -
    have "add_loop (- (1 / 2 ^ 60)) = add_loop (round53 (- (1 / 2 ^ 60) + round53 TWOPI))"
      by (subst add_loop.simps) simp
    then show ?thesis
      by (simp only: round53_add_tiny)
  qed
  moreover have "add_loop (round53 TWOPI) = Some (round53 TWOPI)"
    using t by (subst add_loop.simps) simp
  ultimately show ?thesis
    by (simp add: NormalizeZeroTwoPI_def)
qed

lemma Normalize_TWOPI: "NormalizeZeroTwoPI (round53 TWOPI) = Some 0"
proof -
  have t: "5 < round53 TWOPI" using round53_TWOPI_bounds by simp
  have z: "round53 0 = 0" by (simp add: round53_def)
  have "sub_loop (round53 TWOPI) = sub_loop 0"
    by (subst sub_loop.simps) (simp add: z)
  moreover have "sub_loop 0 = Some 0"
    using t by (subst sub_loop.simps) simp
  moreover have "add_loop 0 = Some 0"
    by (subst add_loop.simps) simp
  ultimately show ?thesis
    by (simp add: NormalizeZeroTwoPI_def)
qed

text \<open>
  C8, at inputs where it fails. \<open>2 ^ 100\<close> is a finite \<^verbatim>\<open>double\<close>, and on it
  \<^verbatim>\<open>NormalizeZeroTwoPI\<close> never returns: \<open>2 ^ 100 - TWOPI\<close> rounds to \<open>2 ^ 100\<close>, so the
  first loop never ends. \<open>- (1 / 2 ^ 60)\<close> is a finite \<^verbatim>\<open>double\<close> too, and on it the
  function returns \<^verbatim>\<open>TWOPI\<close> itself, which is not below \<^verbatim>\<open>TWOPI\<close> and which the function
  takes to \<open>0\<close>: the result is outside the half-open interval, and normalising twice
  differs from normalising once.
\<close>

theorem C8_normalize_fails:
  "round53 (2 ^ 100) = 2 ^ 100
   \<and> NormalizeZeroTwoPI (2 ^ 100) = None
   \<and> round53 (- (1 / 2 ^ 60)) = - (1 / 2 ^ 60)
   \<and> NormalizeZeroTwoPI (- (1 / 2 ^ 60)) = Some (round53 TWOPI)
   \<and> NormalizeZeroTwoPI (round53 TWOPI) = Some 0
   \<and> round53 TWOPI \<noteq> 0"
proof -
  have "NormalizeZeroTwoPI (2 ^ 100) = None"
    unfolding NormalizeZeroTwoPI_def sub_loop_stuck by simp
  moreover have "round53 TWOPI \<noteq> 0"
    using round53_TWOPI_bounds by simp
  ultimately show ?thesis
    using round53_power round53_tiny Normalize_tiny Normalize_TWOPI by blast
qed

subsection \<open>Rounding at 53 bits\<close>

text \<open>
  \<open>round53 x\<close> is the multiple of the unit \<open>u\<close> of the binade of \<open>x\<close> that is nearest to
  \<open>x\<close>, and the one with the even factor when \<open>x\<close> lies halfway between two. With these
  rules the \<^verbatim>\<open>double\<close>s of the constants, of the angles of the examples and of each
  step of the runs below are computed.
\<close>

lemma round53_grid:
  assumes u: "u = 2 powi (n - 52)"
    and lo: "2 ^ 52 * u \<le> \<bar>x\<bar>" and hi: "\<bar>x\<bar> < 2 ^ 53 * u"
  shows "round53 x = of_int (rne (x / u)) * u"
proof -
  have "(2::real) powi n = 2 powi (52 + (n - 52))" by simp
  also have "\<dots> = 2 powi 52 * 2 powi (n - 52)"
    by (rule power_int_add) simp
  finally have a: "(2::real) powi n = 2 ^ 52 * u" unfolding u by simp
  have "n + 1 = 53 + (n - 52)" by simp
  then have "(2::real) powi (n + 1) = 2 powi (53 + (n - 52))" by (simp only:)
  also have "\<dots> = 2 powi 53 * 2 powi (n - 52)"
    by (rule power_int_add) simp
  finally have b: "(2::real) powi (n + 1) = 2 ^ 53 * u" unfolding u by simp
  have "round53 x = of_int (rne (x / 2 powi (n - 52))) * 2 powi (n - 52)"
    by (rule round53_binade) (simp_all only: a b lo hi)
  then show ?thesis by (simp only: u)
qed

lemma round53_ulp:
  assumes u: "u = 2 powi (n - 52)" and r: "r = of_int k * u"
    and lo: "2 ^ 52 * u \<le> \<bar>x\<bar>" and hi: "\<bar>x\<bar> < 2 ^ 53 * u"
    and near: "\<bar>x - r\<bar> < u / 2"
  shows "round53 x = r"
proof -
  have p: "0 < u" unfolding u by simp
  have "x / u - of_int k = (x - r) / u"
    using p by (simp add: r field_simps)
  then have "\<bar>x / u - of_int k\<bar> = \<bar>x - r\<bar> / u"
    using p by simp
  also have "\<dots> < 1 / 2"
    using p near by (simp add: field_simps)
  finally have "rne (x / u) = k" by (rule rne_near)
  with round53_grid [OF u lo hi] show ?thesis by (simp add: r)
qed

lemma round53_tie_up:
  assumes u: "u = 2 powi (n - 52)" and r: "r = of_int k * u"
    and lo: "2 ^ 52 * u \<le> \<bar>x\<bar>" and hi: "\<bar>x\<bar> < 2 ^ 53 * u"
    and tie: "x - r = u / 2" and even: "even k"
  shows "round53 x = r"
proof -
  have p: "0 < u" unfolding u by simp
  have "x = r + u / 2" using tie by simp
  then have e: "x / u = of_int k + 1 / 2"
    using p by (simp add: r field_simps)
  have "\<lfloor>x / u\<rfloor> = k" unfolding e by linarith
  then have "rne (x / u) = k"
    using even by (simp add: rne_def Let_def e)
  with round53_grid [OF u lo hi] show ?thesis by (simp add: r)
qed

lemma round53_zero: "round53 0 = 0"
  by (simp add: round53_def)

lemma round53_one: "round53 1 = 1"
  by (rule round53_ulp [where n = 0 and k = "2 ^ 52" and u = "1 / 2 ^ 52"])
    (simp_all add: power_int_minus field_simps)

lemma fmul_zero: "fmul 0 x = 0"
  by (simp add: fmul_def round53_zero)

lemma fdiv_zero: "fdiv 0 x = 0"
  by (simp add: fdiv_def round53_zero)

lemma fsub_same: "fsub x x = 0"
  by (simp add: fsub_def round53_zero)

lemma rad_zero: "fl_rad 0 = 0"
  unfolding fl_rad_def by (rule fmul_zero)

lemma fl_Az_Inr:
  "fl_Az M DsC RA Dec =
     Inr (if fl_p1 M DsC RA Dec = 0 \<and> fl_p2 M DsC RA Dec = 0 then 0
          else latan2 M (fl_p1 M DsC RA Dec) (fl_p2 M DsC RA Dec))"
  by (simp add: fl_Az_def fl_atan2_def Let_def)

text \<open>
  The constants of the program, the field of view of the narrow view, the angles of
  the examples in radians, the halves of 640 and 480, and \<open>2.0 * PI2 / PI\<close>:
\<close>

lemma double_RADS: "round53 RADS = 5030569068125457 / 2 ^ 58"
  unfolding RADS_def
  by (rule round53_ulp [where n = "- 6" and k = "5030569068125457" and u = "1 / 2 ^ 58"])
    (simp_all add: power_int_minus field_simps)

lemma double_PI: "round53 PI = 3537118876014453 / 2 ^ 50"
  unfolding PI_def
  by (rule round53_ulp [where n = "1" and k = "7074237752028906" and u = "1 / 2 ^ 51"])
    (simp_all add: power_int_minus field_simps)

lemma double_PI2: "round53 PI2 = 3537118876014453 / 2 ^ 51"
  unfolding PI2_def
  by (rule round53_ulp [where n = "0" and k = "7074237752028906" and u = "1 / 2 ^ 52"])
    (simp_all add: power_int_minus field_simps)

lemma double_FOV: "round53 (1 / 10000) = 7378697629483821 / 2 ^ 66"
  by (rule round53_ulp [where n = "- 14" and k = "7378697629483821" and u = "1 / 2 ^ 66"])
    (simp_all add: power_int_minus field_simps)

lemma rad_40: "fl_rad 40 = 6288211335156821 / 2 ^ 53"
  unfolding fl_rad_def fmul_def double_RADS
  by (rule round53_ulp [where n = "- 1" and k = "6288211335156821" and u = "1 / 2 ^ 53"])
    (simp_all add: power_int_minus field_simps)

lemma rad_60: "fl_rad 60 = 73689976583869 / 2 ^ 46"
  unfolding fl_rad_def fmul_def double_RADS
  by (rule round53_ulp [where n = "0" and k = "4716158501367616" and u = "1 / 2 ^ 52"])
    (simp_all add: power_int_minus field_simps)

lemma rad_m41: "fl_rad (- 41) = - (3222708309267871 / 2 ^ 52)"
  unfolding fl_rad_def fmul_def double_RADS
  by (rule round53_ulp [where n = "- 1" and k = "- 6445416618535742" and u = "1 / 2 ^ 53"])
    (simp_all add: power_int_minus field_simps)

lemma rad_FOV: "fl_rad (7378697629483821 / 2 ^ 66) = 8242084361216749 / 2 ^ 72"
  unfolding fl_rad_def fmul_def double_RADS
  by (rule round53_ulp [where n = "- 20" and k = "8242084361216749" and u = "1 / 2 ^ 72"])
    (simp_all add: power_int_minus field_simps)

lemma rad_m38: "fl_rad (- 38) = - (1493450192099745 / 2 ^ 51)"
  unfolding fl_rad_def fmul_def double_RADS
  by (rule round53_ulp [where n = "- 1" and k = "- 5973800768398980" and u = "1 / 2 ^ 53"])
    (simp_all add: power_int_minus field_simps)

lemma rad_38: "fl_rad 38 = 1493450192099745 / 2 ^ 51"
  unfolding fl_rad_def fmul_def double_RADS
  by (rule round53_ulp [where n = "- 1" and k = "5973800768398980" and u = "1 / 2 ^ 53"])
    (simp_all add: power_int_minus field_simps)

lemma rad_180: "fl_rad 180 = 221069929751607 / 2 ^ 46"
  unfolding fl_rad_def fmul_def double_RADS
  by (rule round53_ulp [where n = "1" and k = "7074237752051424" and u = "1 / 2 ^ 51"])
    (simp_all add: power_int_minus field_simps)

lemma half_640: "fdiv 640 2 = 320"
  unfolding fdiv_def
  by (rule round53_ulp [where n = "8" and k = "5629499534213120" and u = "1 / 2 ^ 44"])
    (simp_all add: power_int_minus field_simps)

lemma half_480: "fdiv 480 2 = 240"
  unfolding fdiv_def
  by (rule round53_ulp [where n = "7" and k = "8444249301319680" and u = "1 / 2 ^ 45"])
    (simp_all add: power_int_minus field_simps)

lemma center_nz_mul: "fmul 2 (3537118876014453 / 2 ^ 51) = 3537118876014453 / 2 ^ 50"
  unfolding fmul_def
  by (rule round53_ulp [where n = "1" and k = "7074237752028906" and u = "1 / 2 ^ 51"])
    (simp_all add: power_int_minus field_simps)

lemma center_nz_div: "fdiv (3537118876014453 / 2 ^ 50) (3537118876014453 / 2 ^ 50) = 1"
  unfolding fdiv_def
  by (rule round53_ulp [where n = "0" and k = "4503599627370496" and u = "1 / 2 ^ 52"])
    (simp_all add: power_int_minus field_simps)

subsection \<open>The test \<^verbatim>\<open>TempVal >= 1.0\<close> in rounded arithmetic\<close>

text \<open>
  Whenever the rounded \<^verbatim>\<open>TempVal\<close> is at least 1, whatever the view, the star and the
  library are, the altitude is \<^verbatim>\<open>PI2\<close>, so that \<^verbatim>\<open>nz\<close>, \<^verbatim>\<open>tX\<close> and \<^verbatim>\<open>tY\<close> are 0 and the
  pixel is the centre of the display (half of a dimension of the display is a
  \<^verbatim>\<open>double\<close>). At the view of \<^verbatim>\<open>WM_CREATE\<close> (centre 300, 40) this is the case for the
  star at the centre, for every library that returns the values listed for the sine
  and the cosine of the declination: there the rounded embedding gives the pixel of
  the exact one.
\<close>

lemma round53_half:
  assumes "0 \<le> n" and "n \<le> INT_MAX"
  shows "round53 (real_of_int n / 2) = real_of_int n / 2"
proof (cases "n = 0")
  case True
  then show ?thesis by (simp add: round53_zero)
next
  case False
  with assms(1) have "1 \<le> nat n" by simp
  from ex_power_ivl1 [OF _ this, of 2] obtain b where
    b: "2 ^ b \<le> nat n" "nat n < 2 ^ (b + 1)"
    by auto
  have "int (2 ^ b) \<le> n"
    using b(1) assms(1) by linarith
  then have "(2::int) ^ b < 2 ^ 15"
    using assms(2) by (simp add: INT_MAX_def)
  then have "b < 15"
    by (simp only: power_strict_increasing_iff one_less_numeral_iff semiring_norm)
  then have l: "b \<le> 52"
    by simp
  define B :: real where "B = 2 ^ b"
  define u :: real where "u = B / 2 ^ 53"
  have "real (2 ^ b) \<le> real (nat n)" "real (nat n) < real (2 ^ (b + 1))"
    using b by (simp_all only: of_nat_le_iff of_nat_less_iff)
  then have n: "B \<le> real_of_int n" "real_of_int n < 2 * B"
    using assms(1) by (simp_all add: B_def)
  have p: "0 < B"
    by (simp add: B_def)
  have "(2::real) ^ (52 - b) * 2 ^ b = 2 ^ (52 - b + b)"
    by (simp only: power_add)
  then have q: "(2::real) ^ (52 - b) * B = 2 ^ 52"
    using l by (simp add: B_def)
  show ?thesis
  proof (rule round53_ulp [where n = "int b - 1" and k = "n * 2 ^ (52 - b)" and u = u])
    have "(2::real) powi (int b - 1 - 52) = 2 powi (int b - 53)"
      by simp
    also have "\<dots> = 2 powi int b / 2 powi 53"
      by (rule power_int_diff) simp
    finally show "u = 2 powi (int b - 1 - 52)"
      by (simp add: u_def B_def)
    have "real_of_int (n * 2 ^ (52 - b)) * u = real_of_int n * (2 ^ (52 - b) * B) / 2 ^ 53"
      by (simp add: u_def)
    then show "real_of_int n / 2 = real_of_int (n * 2 ^ (52 - b)) * u"
      unfolding q by simp
    then show "\<bar>real_of_int n / 2 - real_of_int n / 2\<bar> < u / 2"
      using p by (simp add: u_def)
    show "2 ^ 52 * u \<le> \<bar>real_of_int n / 2\<bar>"
      using n p by (simp add: u_def)
    show "\<bar>real_of_int n / 2\<bar> < 2 ^ 53 * u"
      using n p by (simp add: u_def)
  qed
qed

lemma nz_center: "fl_nz (round53 PI2) = 0"
  unfolding fl_nz_def double_PI double_PI2
  by (simp only: center_nz_mul center_nz_div fsub_same)

lemma EQConvert_fl_guarded:
  assumes t: "1 \<le> fl_TempVal M DsC RA Dec"
    and z: "fl_rad (dFOV DsC) \<noteq> 0" "dFOV DsC \<noteq> 0"
    and range: "0 \<le> MaxX DsC" "MaxX DsC \<le> INT_MAX" "0 \<le> MaxY DsC" "MaxY DsC \<le> INT_MAX"
  shows "fl_Alt M DsC RA Dec = Inr (round53 PI2)
         \<and> EQConvert_fl M DsC RA Dec
             = Inr (DsC\<lparr>CX := MaxX DsC div 2, CY := MaxY DsC div 2\<rparr>)"
proof -
  have alt: "fl_Alt M DsC RA Dec = Inr (round53 PI2)"
    using t by (simp add: fl_Alt_def)
  have tX: "fl_tX M DsC Az (round53 PI2) = 0" for Az
    unfolding fl_tX_def nz_center by (simp only: fmul_zero fdiv_zero)
  have tY: "fl_tY M DsC Az (round53 PI2) = 0" for Az
    unfolding fl_tY_def nz_center by (simp add: fmul_zero fdiv_zero)
  have r: "- 32768 \<le> n div 2 \<and> n div 2 \<le> 32767" if "0 \<le> n" "n \<le> INT_MAX" for n :: int
    using that unfolding INT_MAX_def by arith
  have c: "c_int (fadd (fdiv (real_of_int n) 2) (fmul 0 x)) = Inr (n div 2)"
    if "0 \<le> n" "n \<le> INT_MAX" for n :: int and x
  proof -
    have h: "fdiv (real_of_int n) 2 = real_of_int n / 2"
      unfolding fdiv_def by (rule round53_half [OF that])
    have "fadd (fdiv (real_of_int n) 2) (fmul 0 x) = round53 (real_of_int n / 2)"
      unfolding fmul_zero h by (simp add: fadd_def)
    then have e: "fadd (fdiv (real_of_int n) 2) (fmul 0 x) = real_of_int n / 2"
      by (simp only: round53_half [OF that])
    show ?thesis
      unfolding e using r [OF that] trunc_half [OF that(1)]
      by (simp add: c_int_def INT_MIN_def INT_MAX_def)
  qed
  have "EQConvert_fl M DsC RA Dec = Inr (DsC\<lparr>CX := MaxX DsC div 2, CY := MaxY DsC div 2\<rparr>)"
    unfolding EQConvert_fl_def fl_Az_Inr alt
    by (simp add: z tX tY c [OF range(1,2)] c [OF range(3,4)])
  with alt show ?thesis
    by simp
qed

text \<open>Line 412 at the centre of the view of \<^verbatim>\<open>WM_CREATE\<close>, step by step:\<close>

lemma create_sin_sin:
  "fmul (5789716078940991 / 2 ^ 53) (5789716078940991 / 2 ^ 53)
     = 7443115518312525 / 2 ^ 54"
  unfolding fmul_def
  by (rule round53_ulp [where n = "- 2" and k = "7443115518312525" and u = "1 / 2 ^ 54"])
    (simp_all add: power_int_minus field_simps)

lemma create_cos_cos:
  "fmul (6899914937146605 / 2 ^ 53) (6899914937146605 / 2 ^ 53)
     = 2642820747792365 / 2 ^ 52"
  unfolding fmul_def
  by (rule round53_ulp [where n = "- 1" and k = "5285641495584730" and u = "1 / 2 ^ 53"])
    (simp_all add: power_int_minus field_simps)

lemma create_cos_cos_cos: "fmul (2642820747792365 / 2 ^ 52) 1 = 2642820747792365 / 2 ^ 52"
  unfolding fmul_def
  by (rule round53_ulp [where n = "- 1" and k = "5285641495584730" and u = "1 / 2 ^ 53"])
    (simp_all add: power_int_minus field_simps)

lemma create_sum: "fadd (7443115518312525 / 2 ^ 54) (2642820747792365 / 2 ^ 52) = 1"
  unfolding fadd_def
  by (rule round53_ulp [where n = "0" and k = "4503599627370496" and u = "1 / 2 ^ 52"])
    (simp_all add: power_int_minus field_simps)

lemma EQConvert_fl_create:
  assumes lib: "lsin M (fl_rad 40) = 5789716078940991 / 2 ^ 53"
      "lcos M (fl_rad 40) = 6899914937146605 / 2 ^ 53" "lcos M 0 = 1"
    and view: "dRA DsC = 300" "dDec DsC = 40" "dFOV DsC = 60"
    and range: "0 \<le> MaxX DsC" "MaxX DsC \<le> INT_MAX" "0 \<le> MaxY DsC" "MaxY DsC \<le> INT_MAX"
  shows "fl_TempVal M DsC 300 40 = 1
         \<and> EQConvert_fl M DsC 300 40 = Inr (DsC\<lparr>CX := MaxX DsC div 2, CY := MaxY DsC div 2\<rparr>)"
proof -
  have h: "fl_h DsC 300 = 0"
    unfolding fl_h_def view by (rule fsub_same)
  have t: "fl_TempVal M DsC 300 40 = 1"
    unfolding fl_TempVal_def view h lib
    by (simp only: create_sin_sin create_cos_cos create_cos_cos_cos create_sum)
  have z: "fl_rad (dFOV DsC) \<noteq> 0" "dFOV DsC \<noteq> 0"
    unfolding view rad_60 by simp_all
  have "1 \<le> fl_TempVal M DsC 300 40"
    unfolding t by simp
  from EQConvert_fl_guarded [OF this z range] t show ?thesis
    by simp
qed

lemma lib_nearest_create:
  "lsin lib_nearest (fl_rad 40) = 5789716078940991 / 2 ^ 53"
  "lcos lib_nearest (fl_rad 40) = 6899914937146605 / 2 ^ 53"
  "lcos lib_nearest 0 = 1"
  by (simp_all add: lib_nearest_def rad_40 rad_m41 rad_m38 rad_38 rad_180 double_PI2
      round53_zero round53_one)

lemma EQConvert_fl_vga: "EQConvert_fl lib_nearest ds_vga 300 40 = EQConvert ds_vga 300 40"
proof -
  have "EQConvert_fl lib_nearest ds_vga 300 40
          = Inr (ds_vga\<lparr>CX := MaxX ds_vga div 2, CY := MaxY ds_vga div 2\<rparr>)"
    using EQConvert_fl_create [OF lib_nearest_create, of ds_vga]
    by (simp add: ds_vga_def INT_MAX_def)
  moreover have "EQConvert ds_vga (dRA ds_vga) (dDec ds_vga)
          = Inr (ds_vga\<lparr>CX := MaxX ds_vga div 2, CY := MaxY ds_vga div 2\<rparr>)"
    by (rule EQConvert_center) (simp_all add: ds_vga_def INT_MAX_def)
  ultimately show ?thesis
    by (simp add: ds_vga_def)
qed

lemma EQConvert_fl_odd: "EQConvert_fl lib_nearest ds_odd 300 40 = EQConvert ds_odd 300 40"
proof -
  have "EQConvert_fl lib_nearest ds_odd 300 40
          = Inr (ds_odd\<lparr>CX := MaxX ds_odd div 2, CY := MaxY ds_odd div 2\<rparr>)"
    using EQConvert_fl_create [OF lib_nearest_create, of ds_odd]
    by (simp add: ds_odd_def INT_MAX_def)
  moreover have "EQConvert ds_odd (dRA ds_odd) (dDec ds_odd)
          = Inr (ds_odd\<lparr>CX := MaxX ds_odd div 2, CY := MaxY ds_odd div 2\<rparr>)"
    by (rule EQConvert_center) (simp_all add: ds_odd_def INT_MAX_def)
  ultimately show ?thesis
    by (simp add: ds_odd_def)
qed

subsection \<open>The altitude opposite the centre of a view\<close>

text \<open>
  Line 412 for the view centred at \<open>(0, -38)\<close> and the star at \<open>(180, 38)\<close>, step by
  step: \<^verbatim>\<open>fRA - RA\<close>, the two products, the third product and the sum.
\<close>

lemma south_h: "fsub 0 (221069929751607 / 2 ^ 46) = - (221069929751607 / 2 ^ 46)"
  unfolding fsub_def
  by (rule round53_ulp [where n = "1" and k = "- 7074237752051424" and u = "1 / 2 ^ 51"])
    (simp_all add: power_int_minus field_simps)

lemma south_sin_sin:
  "fmul (- (5545385581741303 / 2 ^ 53)) (5545385581741303 / 2 ^ 53)
     = - (6828160537027801 / 2 ^ 54)"
  unfolding fmul_def
  by (rule round53_ulp [where n = "- 2" and k = "- 6828160537027801" and u = "1 / 2 ^ 54"])
    (simp_all add: power_int_minus field_simps)

lemma south_cos_cos:
  "fmul (7097769872602405 / 2 ^ 53) (7097769872602405 / 2 ^ 53)
     = 5593118986227093 / 2 ^ 53"
  unfolding fmul_def
  by (rule round53_ulp [where n = "- 1" and k = "5593118986227093" and u = "1 / 2 ^ 53"])
    (simp_all add: power_int_minus field_simps)

lemma south_cos_cos_cos:
  "fmul (5593118986227093 / 2 ^ 53) (- 1)
     = - (5593118986227093 / 2 ^ 53)"
  unfolding fmul_def
  by (rule round53_ulp [where n = "- 1" and k = "- 5593118986227093" and u = "1 / 2 ^ 53"])
    (simp_all add: power_int_minus field_simps)

lemma south_sum:
  "fadd (- (6828160537027801 / 2 ^ 54)) (- (5593118986227093 / 2 ^ 53))
     = - (4503599627370497 / 2 ^ 52)"
  unfolding fadd_def
  by (rule round53_ulp [where n = "0" and k = "- 4503599627370497" and u = "1 / 2 ^ 52"])
    (simp_all add: power_int_minus field_simps)

lemma h_south: "fl_h ds_south 180 = - fl_rad 180"
proof -
  have d: "dRA ds_south = 0"
    by (simp add: ds_south_def)
  show ?thesis
    unfolding fl_h_def d rad_zero rad_180 by (rule south_h)
qed

text \<open>
  C7, at an input where it fails. The view is centred at right ascension 0,
  declination \<open>-38\<close>, and the star lies opposite the centre, at right ascension 180,
  declination 38. For every library that returns the values listed for the sines and
  the cosines of the two declinations and for the cosine of \<^verbatim>\<open>fRA - RA\<close> (each the
  \<^verbatim>\<open>double\<close> nearest to the real value), line 412 gives \<open>TempVal = - 1 - 1 / 2 ^ 52\<close>.
  The only test before \<^verbatim>\<open>asin\<close> is \<^verbatim>\<open>TempVal >= 1.0\<close>: it fails, \<^verbatim>\<open>asin\<close> is called
  below its domain and reports the domain error, and the projection ends with it.
\<close>

theorem C7_asin_outside_domain:
  assumes "lsin M (fl_rad (- 38)) = - (5545385581741303 / 2 ^ 53)"
    and "lsin M (fl_rad 38) = 5545385581741303 / 2 ^ 53"
    and "lcos M (fl_rad (- 38)) = 7097769872602405 / 2 ^ 53"
    and "lcos M (fl_rad 38) = 7097769872602405 / 2 ^ 53"
    and "lcos M (fl_h ds_south 180) = - 1"
  shows "fl_TempVal M ds_south 180 38 = - 1 - 1 / 2 ^ 52
         \<and> \<not> 1 \<le> fl_TempVal M ds_south 180 38
         \<and> fl_Alt M ds_south 180 38 = fl_asin M (- 1 - 1 / 2 ^ 52)
         \<and> fl_asin M (- 1 - 1 / 2 ^ 52) = Inl MathDomain
         \<and> EQConvert_fl M ds_south 180 38 = Inl MathDomain"
proof -
  have d: "dDec ds_south = - 38"
    by (simp add: ds_south_def)
  have "fl_TempVal M ds_south 180 38 = - (4503599627370497 / 2 ^ 52)"
    unfolding fl_TempVal_def d assms
    by (simp only: south_sin_sin south_cos_cos south_cos_cos_cos south_sum)
  then have t: "fl_TempVal M ds_south 180 38 = - 1 - 1 / 2 ^ 52"
    by simp
  have a: "fl_asin M (- 1 - 1 / 2 ^ 52) = Inl MathDomain"
    by (simp add: fl_asin_def)
  have b: "fl_Alt M ds_south 180 38 = fl_asin M (- 1 - 1 / 2 ^ 52)"
    unfolding fl_Alt_def t by (simp add: Let_def)
  have "EQConvert_fl M ds_south 180 38 = Inl MathDomain"
    unfolding EQConvert_fl_def fl_Az_Inr b a by simp
  with t a b show ?thesis
    by simp
qed

theorem C7_asin_outside_domain_witness:
  "fl_TempVal lib_nearest ds_south 180 38 = - 1 - 1 / 2 ^ 52
   \<and> fl_Alt lib_nearest ds_south 180 38 = Inl MathDomain
   \<and> EQConvert_fl lib_nearest ds_south 180 38 = Inl MathDomain"
proof -
  have "lsin lib_nearest (fl_rad (- 38)) = - (5545385581741303 / 2 ^ 53)"
    "lsin lib_nearest (fl_rad 38) = 5545385581741303 / 2 ^ 53"
    "lcos lib_nearest (fl_rad (- 38)) = 7097769872602405 / 2 ^ 53"
    "lcos lib_nearest (fl_rad 38) = 7097769872602405 / 2 ^ 53"
    "lcos lib_nearest (fl_h ds_south 180) = - 1"
    by (simp_all add: lib_nearest_def h_south rad_40 rad_m41 rad_m38 rad_38 rad_180)
  from C7_asin_outside_domain [OF this] show ?thesis
    by simp
qed

subsection \<open>The centre of a narrow view\<close>

text \<open>
  The run for the view centred at \<open>(0, -41)\<close> with the field of view of 0.0001 degrees
  and the star at its centre, step by step, in the order of the function: \<^verbatim>\<open>p2\<close>,
  \<^verbatim>\<open>TempVal\<close>, \<^verbatim>\<open>nz\<close>, \<^verbatim>\<open>az2\<close>, \<^verbatim>\<open>tX\<close>, \<^verbatim>\<open>tY\<close>, \<^verbatim>\<open>xyScale\<close> and the two sums that
  are cast to \<^verbatim>\<open>int\<close>.
\<close>

lemma zoom_cos_sin: "fmul 1 (- (369328399812825 / 2 ^ 49)) = - (369328399812825 / 2 ^ 49)"
  unfolding fmul_def
  by (rule round53_ulp [where n = "- 1" and k = "- 5909254397005200" and u = "1 / 2 ^ 53"])
    (simp_all add: power_int_minus field_simps)

lemma zoom_tan_cos:
  "fmul (- (3914919428525655 / 2 ^ 52)) (1699454892128675 / 2 ^ 51)
     = - (369328399812825 / 2 ^ 49)"
  unfolding fmul_def
  by (rule round53_ulp [where n = "- 1" and k = "- 5909254397005200" and u = "1 / 2 ^ 53"])
    (simp_all add: power_int_minus field_simps)

lemma zoom_sin_sin:
  "fmul (- (369328399812825 / 2 ^ 49)) (- (369328399812825 / 2 ^ 49))
     = 7753639403534971 / 2 ^ 54"
  unfolding fmul_def
  by (rule round53_ulp [where n = "- 2" and k = "7753639403534971" and u = "1 / 2 ^ 54"])
    (simp_all add: power_int_minus field_simps)

lemma zoom_cos_cos:
  "fmul (1699454892128675 / 2 ^ 51) (1699454892128675 / 2 ^ 51)
     = 5130379552973505 / 2 ^ 53"
  unfolding fmul_def
  by (rule round53_ulp [where n = "- 1" and k = "5130379552973505" and u = "1 / 2 ^ 53"])
    (simp_all add: power_int_minus field_simps)

lemma zoom_cos_cos_cos: "fmul (5130379552973505 / 2 ^ 53) 1 = 5130379552973505 / 2 ^ 53"
  unfolding fmul_def
  by (rule round53_ulp [where n = "- 1" and k = "5130379552973505" and u = "1 / 2 ^ 53"])
    (simp_all add: power_int_minus field_simps)

lemma zoom_sum:
  "fadd (7753639403534971 / 2 ^ 54) (5130379552973505 / 2 ^ 53)
     = 4503599627370495 / 2 ^ 52"
  unfolding fadd_def
  by (rule round53_tie_up [where n = "- 1" and k = "9007199254740990" and u = "1 / 2 ^ 53"])
    (simp_all add: power_int_minus field_simps)

lemma zoom_nz_mul: "fmul 2 (7074237657122175 / 2 ^ 52) = 7074237657122175 / 2 ^ 51"
  unfolding fmul_def
  by (rule round53_ulp [where n = "1" and k = "7074237657122175" and u = "1 / 2 ^ 51"])
    (simp_all add: power_int_minus field_simps)

lemma zoom_nz_div:
  "fdiv (7074237657122175 / 2 ^ 51) (3537118876014453 / 2 ^ 50)
     = 9007199133901989 / 2 ^ 53"
  unfolding fdiv_def
  by (rule round53_ulp [where n = "- 1" and k = "9007199133901989" and u = "1 / 2 ^ 53"])
    (simp_all add: power_int_minus field_simps)

lemma zoom_nz: "fsub 1 (9007199133901989 / 2 ^ 53) = 120839003 / 2 ^ 53"
  unfolding fsub_def
  by (rule round53_ulp [where n = "- 27" and k = "8109368218222592" and u = "1 / 2 ^ 79"])
    (simp_all add: power_int_minus field_simps)

lemma zoom_az2_sub: "fsub 0 (3537118876014453 / 2 ^ 51) = - (3537118876014453 / 2 ^ 51)"
  unfolding fsub_def
  by (rule round53_ulp [where n = "0" and k = "- 7074237752028906" and u = "1 / 2 ^ 52"])
    (simp_all add: power_int_minus field_simps)

lemma zoom_az2: "fadd (- (3537118876014453 / 2 ^ 51)) 0 = - (3537118876014453 / 2 ^ 51)"
  unfolding fadd_def
  by (rule round53_ulp [where n = "0" and k = "- 7074237752028906" and u = "1 / 2 ^ 52"])
    (simp_all add: power_int_minus field_simps)

lemma zoom_tX_cos:
  "fmul (120839003 / 2 ^ 53) (- (8193107370916585 / 2 ^ 96))
     = - (7376424418192441 / 2 ^ 122)"
  unfolding fmul_def
  by (rule round53_ulp [where n = "- 70" and k = "- 7376424418192441" and u = "1 / 2 ^ 122"])
    (simp_all add: power_int_minus field_simps)

lemma zoom_tX_PI:
  "fmul (- (7376424418192441 / 2 ^ 122)) (3537118876014453 / 2 ^ 50)
     = - (362089386905551 / 2 ^ 116)"
  unfolding fmul_def
  by (rule round53_ulp [where n = "- 68" and k = "- 5793430190488816" and u = "1 / 2 ^ 120"])
    (simp_all add: power_int_minus field_simps)

lemma zoom_tX:
  "fdiv (- (362089386905551 / 2 ^ 116)) (8242084361216749 / 2 ^ 72)
     = - (6331235863067689 / 2 ^ 101)"
  unfolding fdiv_def
  by (rule round53_ulp [where n = "- 49" and k = "- 6331235863067689" and u = "1 / 2 ^ 101"])
    (simp_all add: power_int_minus field_simps)

lemma zoom_tY_sin: "fmul (120839003 / 2 ^ 53) (- 1) = - (120839003 / 2 ^ 53)"
  unfolding fmul_def
  by (rule round53_ulp [where n = "- 27" and k = "- 8109368218222592" and u = "1 / 2 ^ 79"])
    (simp_all add: power_int_minus field_simps)

lemma zoom_tY_PI:
  "fmul (120839003 / 2 ^ 53) (3537118876014453 / 2 ^ 50)
     = 6369082904906081 / 2 ^ 77"
  unfolding fmul_def
  by (rule round53_ulp [where n = "- 25" and k = "6369082904906081" and u = "1 / 2 ^ 77"])
    (simp_all add: power_int_minus field_simps)

lemma zoom_tY:
  "fdiv (6369082904906081 / 2 ^ 77) (8242084361216749 / 2 ^ 72)
     = 6960326572777845 / 2 ^ 58"
  unfolding fdiv_def
  by (rule round53_ulp [where n = "- 6" and k = "6960326572777845" and u = "1 / 2 ^ 58"])
    (simp_all add: power_int_minus field_simps)

lemma zoom_xy_MaxX: "fdiv 640 (8242084361216749 / 2 ^ 72) = 769010935020987 / 2 ^ 21"
  unfolding fdiv_def
  by (rule round53_ulp [where n = "28" and k = "6152087480167896" and u = "1 / 2 ^ 24"])
    (simp_all add: power_int_minus field_simps)

lemma zoom_xy_120: "fdiv 120 (7378697629483821 / 2 ^ 66) = 1200000"
  unfolding fdiv_def
  by (rule round53_ulp [where n = "20" and k = "5153960755200000" and u = "1 / 2 ^ 32"])
    (simp_all add: power_int_minus field_simps)

lemma zoom_xyScale: "fdiv (769010935020987 / 2 ^ 21) 1200000 = 83996501062559 / 2 ^ 38"
  unfolding fdiv_def
  by (rule round53_ulp [where n = "8" and k = "5375776068003776" and u = "1 / 2 ^ 44"])
    (simp_all add: power_int_minus field_simps)

lemma zoom_X_scaled:
  "fmul (- (6331235863067689 / 2 ^ 101)) (83996501062559 / 2 ^ 38)
     = - (1889339031533683 / 2 ^ 91)"
  unfolding fmul_def
  by (rule round53_ulp [where n = "- 41" and k = "- 7557356126134732" and u = "1 / 2 ^ 93"])
    (simp_all add: power_int_minus field_simps)

lemma zoom_X: "fadd 320 (- (1889339031533683 / 2 ^ 91)) = 5629499534213107 / 2 ^ 44"
  unfolding fadd_def
  by (rule round53_ulp [where n = "8" and k = "5629499534213107" and u = "1 / 2 ^ 44"])
    (simp_all add: power_int_minus field_simps)

lemma zoom_Y_scaled:
  "fmul (6960326572777845 / 2 ^ 58) (83996501062559 / 2 ^ 38)
     = 129816841357953 / 2 ^ 44"
  unfolding fmul_def
  by (rule round53_ulp [where n = "2" and k = "8308277846908992" and u = "1 / 2 ^ 50"])
    (simp_all add: power_int_minus field_simps)

lemma zoom_Y: "fadd 240 (129816841357953 / 2 ^ 44) = 4351941492017793 / 2 ^ 44"
  unfolding fadd_def
  by (rule round53_ulp [where n = "7" and k = "8703882984035586" and u = "1 / 2 ^ 45"])
    (simp_all add: power_int_minus field_simps)

lemma h_zoom: "fl_h ds_zoom 0 = 0"
proof -
  have d: "dRA ds_zoom = 0"
    by (simp add: ds_zoom_def)
  show ?thesis
    unfolding fl_h_def d by (rule fsub_same)
qed

lemma fFOV_zoom: "fl_rad (dFOV ds_zoom) = 8242084361216749 / 2 ^ 72"
proof -
  have d: "dFOV ds_zoom = round53 (1 / 10000)"
    by (simp add: ds_zoom_def)
  show ?thesis
    unfolding d double_FOV by (rule rad_FOV)
qed

lemma nz_zoom: "fl_nz (7074237657122175 / 2 ^ 52) = 120839003 / 2 ^ 53"
  unfolding fl_nz_def double_PI
  by (simp only: zoom_nz_mul zoom_nz_div zoom_nz)

lemma az2_zoom: "fl_az2 ds_zoom 0 = - round53 PI2"
proof -
  have d: "dROT ds_zoom = 0"
    by (simp add: ds_zoom_def)
  show ?thesis
    unfolding fl_az2_def d rad_zero double_PI2
    by (simp only: zoom_az2_sub zoom_az2)
qed

lemma xyScale_zoom: "fl_xyScale ds_zoom = 83996501062559 / 2 ^ 38"
proof -
  have d: "real_of_int (MaxX ds_zoom) = 640" "dFOV ds_zoom = round53 (1 / 10000)"
    by (simp_all add: ds_zoom_def)
  have "fl_xyScale ds_zoom
          = fdiv (fdiv 640 (8242084361216749 / 2 ^ 72)) (fdiv 120 (7378697629483821 / 2 ^ 66))"
    unfolding fl_xyScale_def fFOV_zoom unfolding d double_FOV by (rule refl)
  then show ?thesis
    by (simp only: zoom_xy_MaxX zoom_xy_120 zoom_xyScale)
qed

lemma c_int_X_zoom: "c_int (5629499534213107 / 2 ^ 44) = Inr 319"
proof -
  have "\<lfloor>5629499534213107 / 2 ^ 44 :: real\<rfloor> = 319"
    by (rule floor_unique) simp_all
  then show ?thesis
    by (simp add: c_int_def trunc_def INT_MIN_def INT_MAX_def)
qed

lemma c_int_Y_zoom: "c_int (4351941492017793 / 2 ^ 44) = Inr 247"
proof -
  have "\<lfloor>4351941492017793 / 2 ^ 44 :: real\<rfloor> = 247"
    by (rule floor_unique) simp_all
  then show ?thesis
    by (simp add: c_int_def trunc_def INT_MIN_def INT_MAX_def)
qed

text \<open>
  C3, at an input where it fails. The view is centred at right ascension 0,
  declination \<open>-41\<close>, it is not rotated, its field of view is 0.0001 degrees and the
  display has 640 by 480 pixels; the star is the centre of the view. For every
  library that returns the values listed at the arguments of this run (each the
  \<^verbatim>\<open>double\<close> nearest to the real value), the sum of line 412 lies halfway between two
  \<^verbatim>\<open>double\<close>s and is rounded to \<open>TempVal = 1 - 1 / 2 ^ 52\<close>. The test \<^verbatim>\<open>TempVal >= 1.0\<close>
  fails, the altitude is the value of \<^verbatim>\<open>asin\<close>, below \<^verbatim>\<open>PI2\<close>, and the pixel is
  \<open>(319, 247)\<close>: seven pixels below the centre \<open>(320, 240)\<close> of the display.
\<close>

theorem C3_center_off_center:
  assumes s0: "lsin M 0 = 0" and c0: "lcos M 0 = 1"
    and s41: "lsin M (fl_rad (- 41)) = - (369328399812825 / 2 ^ 49)"
    and c41: "lcos M (fl_rad (- 41)) = 1699454892128675 / 2 ^ 51"
    and t41: "ltan M (fl_rad (- 41)) = - (3914919428525655 / 2 ^ 52)"
    and a52: "lasin M (1 - 1 / 2 ^ 52) = 7074237657122175 / 2 ^ 52"
    and sq: "lsin M (- round53 PI2) = - 1"
    and cq: "lcos M (- round53 PI2) = - (8193107370916585 / 2 ^ 96)"
  shows "dRA ds_zoom = 0 \<and> dDec ds_zoom = - 41 \<and> dROT ds_zoom = 0 \<and> 0 < dFOV ds_zoom
         \<and> fl_TempVal M ds_zoom 0 (- 41) = 1 - 1 / 2 ^ 52
         \<and> fl_Alt M ds_zoom 0 (- 41) = Inr (lasin M (1 - 1 / 2 ^ 52))
         \<and> EQConvert_fl M ds_zoom 0 (- 41) = Inr (ds_zoom\<lparr>CX := 319, CY := 247\<rparr>)
         \<and> real_of_int (MaxX ds_zoom) / 2 = 320 \<and> real_of_int (MaxY ds_zoom) / 2 = 240
         \<and> 1 < \<bar>real_of_int 247 - real_of_int (MaxY ds_zoom) / 2\<bar>"
proof -
  have d: "dRA ds_zoom = 0" "dDec ds_zoom = - 41"
    "real_of_int (MaxX ds_zoom) = 640" "real_of_int (MaxY ds_zoom) = 480"
    by (simp_all add: ds_zoom_def)
  have v: "dROT ds_zoom = 0" "0 < dFOV ds_zoom"
    by (simp_all add: ds_zoom_def double_FOV)
  have one: "(1::real) - 1 / 2 ^ 52 = 4503599627370495 / 2 ^ 52"
    by simp
  have "fl_TempVal M ds_zoom 0 (- 41) = 4503599627370495 / 2 ^ 52"
    unfolding fl_TempVal_def d h_zoom s41 c41 c0
    by (simp only: zoom_sin_sin zoom_cos_cos zoom_cos_cos_cos zoom_sum)
  then have t: "fl_TempVal M ds_zoom 0 (- 41) = 1 - 1 / 2 ^ 52"
    by (simp only: one)
  have alt: "fl_Alt M ds_zoom 0 (- 41) = Inr (lasin M (1 - 1 / 2 ^ 52))"
    unfolding fl_Alt_def t by (simp add: Let_def fl_asin_def)
  have "fl_p2 M ds_zoom 0 (- 41) = 0"
    unfolding fl_p2_def d h_zoom s41 c41 t41 c0
    by (simp only: zoom_cos_sin zoom_tan_cos fsub_same)
  then have az: "fl_Az M ds_zoom 0 (- 41) = Inr 0"
    by (simp add: fl_Az_Inr fl_p1_def h_zoom s0)
  have tX: "fl_tX M ds_zoom 0 (7074237657122175 / 2 ^ 52) = - (6331235863067689 / 2 ^ 101)"
    unfolding fl_tX_def nz_zoom az2_zoom cq fFOV_zoom double_PI
    by (simp only: zoom_tX_cos zoom_tX_PI zoom_tX)
  have tY: "fl_tY M ds_zoom 0 (7074237657122175 / 2 ^ 52) = 6960326572777845 / 2 ^ 58"
    unfolding fl_tY_def nz_zoom az2_zoom sq fFOV_zoom double_PI
    by (simp only: zoom_tY_sin minus_minus zoom_tY_PI zoom_tY)
  have X: "c_int (fadd (fdiv (real_of_int (MaxX ds_zoom)) 2)
             (fmul (fl_tX M ds_zoom 0 (7074237657122175 / 2 ^ 52)) (fl_xyScale ds_zoom)))
           = Inr 319"
    unfolding tX xyScale_zoom d
    by (simp only: half_640 zoom_X_scaled zoom_X c_int_X_zoom)
  have Y: "c_int (fadd (fdiv (real_of_int (MaxY ds_zoom)) 2)
             (fmul (fl_tY M ds_zoom 0 (7074237657122175 / 2 ^ 52)) (fl_xyScale ds_zoom)))
           = Inr 247"
    unfolding tY xyScale_zoom d
    by (simp only: half_480 zoom_Y_scaled zoom_Y c_int_Y_zoom)
  have z: "fl_rad (dFOV ds_zoom) \<noteq> 0" "dFOV ds_zoom \<noteq> 0"
    unfolding fFOV_zoom by (simp_all add: ds_zoom_def double_FOV)
  have "EQConvert_fl M ds_zoom 0 (- 41) = Inr (ds_zoom\<lparr>CX := 319, CY := 247\<rparr>)"
    unfolding EQConvert_fl_def az alt a52
    by (simp only: sum.case Let_def z X Y if_False simp_thms)
  with d v t alt show ?thesis
    by simp
qed

theorem C3_center_off_center_witness:
  "EQConvert_fl lib_nearest ds_zoom (dRA ds_zoom) (dDec ds_zoom)
     = Inr (ds_zoom\<lparr>CX := 319, CY := 247\<rparr>)
   \<and> real_of_int (MaxY ds_zoom) / 2 = 240
   \<and> 1 < \<bar>real_of_int 247 - real_of_int (MaxY ds_zoom) / 2\<bar>"
proof -
  have "lsin lib_nearest 0 = 0" "lcos lib_nearest 0 = 1"
    "lsin lib_nearest (fl_rad (- 41)) = - (369328399812825 / 2 ^ 49)"
    "lcos lib_nearest (fl_rad (- 41)) = 1699454892128675 / 2 ^ 51"
    "ltan lib_nearest (fl_rad (- 41)) = - (3914919428525655 / 2 ^ 52)"
    "lasin lib_nearest (1 - 1 / 2 ^ 52) = 7074237657122175 / 2 ^ 52"
    "lsin lib_nearest (- round53 PI2) = - 1"
    "lcos lib_nearest (- round53 PI2) = - (8193107370916585 / 2 ^ 96)"
    by (simp_all add: lib_nearest_def rad_40 rad_m41 rad_m38 rad_38 rad_180 double_PI2
        round53_zero round53_one)
  from C3_center_off_center [OF this] show ?thesis
    by simp
qed

end
